theory Spec2Isabelle
  imports Complex_Main "HOL-Library.Log_Nat"
begin

section \<open>Data model\<close>

text \<open>
  The signal engine (\<^verbatim>\<open>signalGenerator.js\<close>) and the hold-period check of the two
  entry points (\<^verbatim>\<open>index.js\<close>, \<^verbatim>\<open>generateSignals.js\<close>) are embedded as HOL functions.

  Numbers. The engine is embedded over exact reals: a JavaScript number is a
  \<^typ>\<open>real\<close>, and the rounding of IEEE doubles, overflow and the sign of zero are left
  out. Finite inputs can still produce a non-finite value where the source divides by
  zero; each such division is written out below with what the comparison or clamp that
  consumes the quotient yields for \<^verbatim>\<open>Infinity\<close>, \<^verbatim>\<open>-Infinity\<close> and \<^verbatim>\<open>NaN\<close>. A function
  whose result itself can be \<^verbatim>\<open>NaN\<close> returns \<^typ>\<open>real option\<close>, with \<open>None\<close> for
  \<^verbatim>\<open>NaN\<close>. Comparisons, guards and the discrete values of the engine do not depend
  on rounding. The order-flow score and the MACD do: their value at a given input is a
  matter of rounding, overflow and \<^verbatim>\<open>NaN\<close>, and both are embedded a second time,
  over IEEE doubles, in the section on double arithmetic.

  Effects. The three fetches of \<^verbatim>\<open>generateSignal\<close>, the clock and the signal store
  are parameters: the fetched candles and order book (the spot price is fetched and
  not used), the time in milliseconds since the epoch, and the list of stored signals.
\<close>

text \<open>A candle, with the fields the engine reads; an order-book summary.\<close>

record kline =
  high :: real
  low :: real
  close :: real
  volume :: real

record orderBook =
  bidVolume :: real
  askVolume :: real
  imbalance :: real

datatype direction = UP | DOWN | FLAT

record thresholds =
  up :: real
  down :: real

record macdResult =
  macd :: real
  signal :: real
  histogram :: real

record riskGates =
  volatility_pass :: bool
  liquidity_pass :: bool
  conflict_pass :: bool
  time_pass :: bool
  correlation_pass :: bool

text \<open>
  The record \<^verbatim>\<open>generateSignal\<close> returns and the store holds. The five risk gates are
  spread into it in the source; \<^verbatim>\<open>rationale\<close>, a display string drawn with
  \<^verbatim>\<open>Math.random\<close>, is left out. Timestamps are milliseconds since the epoch.
\<close>

record signalRecord =
  market_id :: string
  symbol :: string
  timeframe :: string
  direction :: direction
  confidence :: "int option"
  tradeable :: bool
  order_flow_score :: real
  momentum_score :: "real option"
  sentiment_score :: real
  gates :: riskGates
  generated_at :: int
  hold_until :: int
  expires_at :: "int option"

datatype error = TypeError | RangeError

section \<open>Constants\<close>

text \<open>
  \<^verbatim>\<open>HOLD_PERIODS[timeframe]\<close>, in minutes. \<open>None\<close> stands for every value that is
  not a number (\<^verbatim>\<open>undefined\<close>, or a member inherited from \<^verbatim>\<open>Object.prototype\<close>):
  all of them make the hold time \<^verbatim>\<open>NaN\<close>.
\<close>

definition HOLD_PERIODS :: "string \<Rightarrow> int option" where
  "HOLD_PERIODS tf =
     (if tf = ''15m'' then Some 5
      else if tf = ''1h'' then Some 15
      else if tf = ''daily'' then Some 30
      else None)"

text \<open>
  \<^verbatim>\<open>THRESHOLDS[aggressiveness]\<close>. A key that names a member inherited from
  \<^verbatim>\<open>Object.prototype\<close> yields an object or function whose \<^verbatim>\<open>up\<close> and \<^verbatim>\<open>down\<close>
  are \<^verbatim>\<open>undefined\<close>; any other unknown key yields \<^verbatim>\<open>undefined\<close> itself.
\<close>

datatype threshLookup = Tier thresholds | Inherited | Undefined

definition objectPrototypeKeys :: "string list" where
  "objectPrototypeKeys =
     [''constructor'', ''__proto__'', ''hasOwnProperty'', ''isPrototypeOf'',
      ''propertyIsEnumerable'', ''toLocaleString'', ''toString'', ''valueOf'',
      ''__defineGetter__'', ''__defineSetter__'', ''__lookupGetter__'',
      ''__lookupSetter__'']"

definition THRESHOLDS :: "string \<Rightarrow> threshLookup" where
  "THRESHOLDS a =
     (if a = ''conservative'' then Tier \<lparr>up = 70, down = 30\<rparr>
      else if a = ''moderate'' then Tier \<lparr>up = 62, down = 38\<rparr>
      else if a = ''aggressive'' then Tier \<lparr>up = 60, down = 40\<rparr>
      else if a \<in> set objectPrototypeKeys then Inherited
      else Undefined)"

section \<open>Indicator library\<close>

text \<open>
  The body of the loop of \<^verbatim>\<open>calculateRSI\<close>, at index \<open>i\<close>, on the pair
  \<open>(gains, losses)\<close>.
\<close>

definition rsiStep :: "real list \<Rightarrow> nat \<Rightarrow> real \<times> real \<Rightarrow> real \<times> real" where
  "rsiStep closes i acc =
     (let change = closes ! i - closes ! (i - 1)
      in if change > 0 then (fst acc + change, snd acc)
         else (fst acc, snd acc - change))"

text \<open>
  \<^verbatim>\<open>calculateRSI(closes, period = 14)\<close>. The loop runs \<open>i = 1 .. period\<close>; the
  guard before it keeps every index in range. With \<open>period = 0\<close> and a non-empty
  list both averages are \<^verbatim>\<open>0/0\<close> and the result is \<^verbatim>\<open>NaN\<close>.
\<close>

definition calculateRSI :: "real list \<Rightarrow> nat \<Rightarrow> real option" where
  "calculateRSI closes period =
     (if length closes < period + 1 then Some 50
      else
        let acc = fold (rsiStep closes) [1 ..< period + 1] (0, 0);
            gains = fst acc;
            losses = snd acc
        in if period = 0 then None
           else
             let avgGain = gains / real period;
                 avgLoss = losses / real period
             in if avgLoss = 0 then Some 100
                else let rs = avgGain / avgLoss
                     in Some (100 - 100 / (1 + rs)))"

text \<open>
  \<^verbatim>\<open>calculateEMA(data, period)\<close>: seeded with \<^verbatim>\<open>data[0]\<close>, folded over the rest.
  Over exact reals (over doubles: \<open>calculateEMA64\<close> below).
\<close>

definition calculateEMA :: "real list \<Rightarrow> nat \<Rightarrow> real" where
  "calculateEMA data period =
     (case data of
        [] \<Rightarrow> 0
      | d0 # rest \<Rightarrow>
          let multiplier = 2 / (real period + 1)
          in fold (\<lambda>x ema. (x - ema) * multiplier + ema) rest d0)"

text \<open>
  \<^verbatim>\<open>calculateMACD(closes)\<close>; \<^verbatim>\<open>Array(9).fill(macd)\<close> is \<open>replicate 9 m\<close>. Over
  exact reals (over doubles: \<open>calculateMACD64\<close> below).
\<close>

definition calculateMACD :: "real list \<Rightarrow> macdResult" where
  "calculateMACD closes =
     (let ema12 = calculateEMA closes 12;
          ema26 = calculateEMA closes 26;
          m = ema12 - ema26;
          s = calculateEMA (replicate 9 m) 9
      in \<lparr>macd = m, signal = s, histogram = m - s\<rparr>)"

section \<open>Score calculators\<close>

text \<open>\<^verbatim>\<open>xs.slice(-n)\<close>: the last \<open>n\<close> elements, the whole list when it is shorter.\<close>

definition sliceLast :: "nat \<Rightarrow> 'a list \<Rightarrow> 'a list" where
  "sliceLast n xs = drop (length xs - n) xs"

text \<open>
  \<^verbatim>\<open>calculateMomentumScore(klines)\<close>. The trend term divides by
  \<^verbatim>\<open>recentCloses[0]\<close>: when that is zero the quotient is \<^verbatim>\<open>Infinity\<close>,
  \<^verbatim>\<open>-Infinity\<close> or \<^verbatim>\<open>NaN\<close> by the sign of \<^verbatim>\<open>recentCloses[4]\<close>, which the clamp
  to \<open>[-10, 10]\<close> turns into \<open>10\<close>, \<open>-10\<close> or \<^verbatim>\<open>NaN\<close>; a \<^verbatim>\<open>NaN\<close> term makes the
  score \<^verbatim>\<open>NaN\<close>. A \<^verbatim>\<open>NaN\<close> RSI fails both comparisons and enters the sum through the
  neutral-zone branch.
\<close>

definition calculateMomentumScore :: "kline list \<Rightarrow> real option" where
  "calculateMomentumScore klines =
     (if length klines < 20 then Some 0
      else
        let closes = map close klines;
            rsi = calculateRSI closes 14;
            hist = histogram (calculateMACD closes);
            recentCloses = sliceLast 5 closes;
            trend =
              (if recentCloses ! 0 \<noteq> 0 then
                 Some (max (-10) (min 10
                   ((recentCloses ! 4 - recentCloses ! 0) / recentCloses ! 0 * 100 * 2)))
               else if recentCloses ! 4 > 0 then Some 10
               else if recentCloses ! 4 < 0 then Some (-10)
               else None)
        in case rsi of
             None \<Rightarrow> None
           | Some r \<Rightarrow>
               let score0 = 0;
                   score1 =
                     (if r > 70 then score0 - (r - 70) * 1.5
                      else if r < 30 then score0 + (30 - r) * 1.5
                      else score0 + (r - 50) * 0.5);
                   score2 = score1 + max (-20) (min 20 (hist * 100))
               in (case trend of
                     None \<Rightarrow> None
                   | Some t \<Rightarrow> Some (max (-30) (min 30 (score2 + t)))))"

text \<open>
  \<^verbatim>\<open>calculateOrderFlowScore(orderBook)\<close>, over exact reals (over doubles:
  \<open>calculateOrderFlowScore64\<close> below).
\<close>

definition calculateOrderFlowScore :: "orderBook \<Rightarrow> real" where
  "calculateOrderFlowScore ob =
     (let score = (imbalance ob - 0.5) * 60
      in max (-30) (min 30 score))"

text \<open>
  \<^verbatim>\<open>calculateSentimentScore(klines)\<close>. \<open>volumeHigh\<close> is the test
  \<^verbatim>\<open>volumeRatio > 1.2\<close>; with a zero average the ratio is \<^verbatim>\<open>Infinity\<close> for a
  positive last volume and \<^verbatim>\<open>-Infinity\<close> or \<^verbatim>\<open>NaN\<close> otherwise.
\<close>

definition calculateSentimentScore :: "kline list \<Rightarrow> real" where
  "calculateSentimentScore klines =
     (if length klines < 10 then 0
      else
        let recentKlines = sliceLast 10 klines;
            avgVolume = foldl (\<lambda>sum k. sum + volume k) 0 recentKlines / 10;
            lastVolume = volume (recentKlines ! 9);
            volumeHigh =
              (if avgVolume \<noteq> 0 then lastVolume / avgVolume > 1.2 else lastVolume > 0);
            priceUp = close (recentKlines ! 9) > close (recentKlines ! 0);
            score =
              (if priceUp \<and> volumeHigh then 15
               else if \<not> priceUp \<and> volumeHigh then -15
               else if priceUp then 8
               else -8)
        in max (-20) (min 20 score))"

section \<open>Risk gates\<close>

text \<open>
  \<^verbatim>\<open>checkRiskGates(klines, orderBook)\<close>. \<open>volatility_pass\<close> is the test
  \<^verbatim>\<open>atrPercent < 5\<close>: with no candle the average range is \<^verbatim>\<open>0/0\<close> and the test
  fails; with a last close of zero \<^verbatim>\<open>atrPercent\<close> is \<^verbatim>\<open>-Infinity\<close> for a negative
  average range (the test holds) and \<^verbatim>\<open>Infinity\<close> or \<^verbatim>\<open>NaN\<close> otherwise.
\<close>

definition checkRiskGates :: "kline list \<Rightarrow> orderBook \<Rightarrow> riskGates" where
  "checkRiskGates klines ob =
     (let closes = map close klines;
          ranges = map (\<lambda>k. high k - low k) (sliceLast 14 klines);
          volatilityPass =
            (if ranges = [] then False
             else
               let atr = foldl (\<lambda>a b. a + b) 0 ranges / real (length ranges);
                   lastClose = closes ! (length closes - 1)
               in if lastClose \<noteq> 0 then atr / lastClose * 100 < 5 else atr < 0);
          totalVolume = bidVolume ob + askVolume ob;
          liquidityPass = totalVolume > 10;
          timePass = True
      in \<lparr>volatility_pass = volatilityPass,
          liquidity_pass = liquidityPass,
          conflict_pass = True,
          time_pass = timePass,
          correlation_pass = True\<rparr>)"

section \<open>Confidence and direction\<close>

text \<open>
  The confluence boost of \<^verbatim>\<open>generateSignal\<close>: what the statement
  \<^verbatim>\<open>if (allBullish || allBearish) confidence += (allBullish ? 8 : -8)\<close> adds.
\<close>

definition confluenceAdjustment :: "real \<Rightarrow> real \<Rightarrow> real \<Rightarrow> real" where
  "confluenceAdjustment orderFlowScore momentumScore sentimentScore =
     (let allBullish = orderFlowScore > 10 \<and> momentumScore > 10 \<and> sentimentScore > 5;
          allBearish = orderFlowScore < -10 \<and> momentumScore < -10 \<and> sentimentScore < -5
      in if allBullish \<or> allBearish then (if allBullish then 8 else -8) else 0)"

text \<open>
  The confidence of \<^verbatim>\<open>generateSignal\<close> before the threshold test: weighted sum,
  remap, confluence boost, clamp.
\<close>

definition computeConfidence :: "real \<Rightarrow> real \<Rightarrow> real \<Rightarrow> real" where
  "computeConfidence orderFlowScore momentumScore sentimentScore =
     (let rawScore =
            orderFlowScore * 0.35 + momentumScore * 0.40 + sentimentScore * 0.25;
          confidence0 = 50 + rawScore * 1.67;
          confidence1 =
            confidence0 + confluenceAdjustment orderFlowScore momentumScore sentimentScore
      in max 0 (min 100 confidence1))"

text \<open>
  The direction block of \<^verbatim>\<open>generateSignal\<close> (``Determine direction based on
  thresholds''): the lookup of the tier, then the two comparisons. The result is the
  direction, \<^verbatim>\<open>tradeable\<close>, and the confidence kept (\<open>None\<close> is \<^verbatim>\<open>null\<close>).
  \<^verbatim>\<open>thresh.up\<close> throws when the tier is \<^verbatim>\<open>undefined\<close>. A tier inherited from
  \<^verbatim>\<open>Object.prototype\<close> has \<^verbatim>\<open>undefined\<close> thresholds, and a \<^verbatim>\<open>NaN\<close> confidence
  (\<open>None\<close> on input) compares false with every number: both fall through to FLAT.
\<close>

definition determineDirection ::
  "string \<Rightarrow> real option \<Rightarrow> error + direction \<times> bool \<times> real option" where
  "determineDirection aggressiveness conf =
     (case THRESHOLDS aggressiveness of
        Undefined \<Rightarrow> Inl TypeError
      | Inherited \<Rightarrow> Inr (FLAT, False, None)
      | Tier thresh \<Rightarrow>
          (case conf of
             None \<Rightarrow> Inr (FLAT, False, None)
           | Some c \<Rightarrow>
               if c \<ge> up thresh then Inr (UP, True, Some c)
               else if c \<le> down thresh then Inr (DOWN, True, Some c)
               else Inr (FLAT, False, None)))"

text \<open>\<^verbatim>\<open>Math.round\<close>: to the nearest integer, a half rounding up.\<close>

definition mathRound :: "real \<Rightarrow> int" where
  "mathRound x = \<lfloor>x + 1 / 2\<rfloor>"

text \<open>\<^verbatim>\<open>Math.round(x * 10) / 10\<close>.\<close>

definition round1 :: "real \<Rightarrow> real" where
  "round1 x = real_of_int (mathRound (x * 10)) / 10"

text \<open>\<^verbatim>\<open>String.prototype.toLowerCase\<close> on ASCII text (the symbols are BTC, ETH, SOL).\<close>

definition toLowerCase :: "string \<Rightarrow> string" where
  "toLowerCase s =
     map (\<lambda>c. case map_of (zip ''ABCDEFGHIJKLMNOPQRSTUVWXYZ''
                                 ''abcdefghijklmnopqrstuvwxyz'') c of
                 Some l \<Rightarrow> l
               | None \<Rightarrow> c) s"

text \<open>
  \<^verbatim>\<open>generateSignal(symbol, timeframe, aggressiveness)\<close> after its three fetches have
  succeeded, at clock reading \<open>now\<close>. Two statements can throw: \<^verbatim>\<open>thresh.up\<close> when
  the tier is unknown (\<^verbatim>\<open>TypeError\<close>), and \<^verbatim>\<open>holdUntil.toISOString()\<close> when the
  timeframe has no hold period and the date is invalid (\<^verbatim>\<open>RangeError\<close>); the
  \<^verbatim>\<open>catch\<close> block rethrows. A \<^verbatim>\<open>NaN\<close> momentum score fails the confluence tests
  and makes the confidence \<^verbatim>\<open>NaN\<close>.
\<close>

definition generateSignal ::
  "string \<Rightarrow> string \<Rightarrow> string \<Rightarrow> kline list \<Rightarrow> orderBook \<Rightarrow> int \<Rightarrow> error + signalRecord" where
  "generateSignal symb tf aggressiveness klines ob now =
     (let orderFlowScore = calculateOrderFlowScore ob;
          momentumScore = calculateMomentumScore klines;
          sentimentScore = calculateSentimentScore klines;
          conf =
            map_option (\<lambda>m. computeConfidence orderFlowScore m sentimentScore) momentumScore
      in case determineDirection aggressiveness conf of
           Inl e \<Rightarrow> Inl e
         | Inr (dir, trade, conf') \<Rightarrow>
             let riskGates = (checkRiskGates klines ob)\<lparr>conflict_pass := trade\<rparr>
             in (case HOLD_PERIODS tf of
                   None \<Rightarrow> Inl RangeError
                 | Some holdMinutes \<Rightarrow>
                     Inr \<lparr>market_id = toLowerCase symb @ ''-usd'',
                          symbol = symb @ ''/USD'',
                          timeframe = tf,
                          direction = dir,
                          confidence =
                            (if trade then map_option mathRound conf' else None),
                          tradeable = trade,
                          order_flow_score = round1 orderFlowScore,
                          momentum_score = map_option round1 momentumScore,
                          sentiment_score = round1 sentimentScore,
                          gates = riskGates,
                          generated_at = now,
                          hold_until = now + holdMinutes * 60 * 1000,
                          expires_at = None\<rparr>))"

section \<open>Hold-period check\<close>

text \<open>
  The query both entry points send to the store: the rows of the key, newest
  \<^verbatim>\<open>generated_at\<close> first, at most one (\<^verbatim>\<open>.single()\<close> gives \<^verbatim>\<open>null\<close> when there is
  none). Among rows with the same \<^verbatim>\<open>generated_at\<close> the database may return any;
  the model returns the first inserted.
\<close>

definition latestSignal :: "signalRecord list \<Rightarrow> string \<Rightarrow> string \<Rightarrow> signalRecord option" where
  "latestSignal store marketId tf =
     (case filter (\<lambda>s. market_id s = marketId \<and> timeframe s = tf) store of
        [] \<Rightarrow> None
      | r # rs \<Rightarrow>
          Some (foldl (\<lambda>best s. if generated_at s > generated_at best then s else best) r rs))"

text \<open>\<^verbatim>\<open>needsRegeneration(marketId, timeframe)\<close> of the scheduler, at clock reading \<open>now\<close>.\<close>

definition needsRegeneration :: "signalRecord list \<Rightarrow> string \<Rightarrow> string \<Rightarrow> int \<Rightarrow> bool" where
  "needsRegeneration store marketId tf now =
     (case latestSignal store marketId tf of
        None \<Rightarrow> True
      | Some d \<Rightarrow> now > hold_until d)"

text \<open>\<^verbatim>\<open>shouldGenerateSignal(marketId, timeframe)\<close> of the one-shot script.\<close>

definition shouldGenerateSignal :: "signalRecord list \<Rightarrow> string \<Rightarrow> string \<Rightarrow> int \<Rightarrow> bool" where
  "shouldGenerateSignal store marketId tf now =
     (case latestSignal store marketId tf of
        None \<Rightarrow> True
      | Some existing \<Rightarrow>
          let holdUntil = hold_until existing
          in now > holdUntil)"

section \<open>The specification's clamp\<close>


section \<open>Double arithmetic\<close>

text \<open>
  A JavaScript number: a finite double, carried as the real it denotes, or one of the
  three special values. The model has one zero.
\<close>

datatype jsnum = Fin real | PosInf | NegInf | NaN

text \<open>Rounding to the nearest integer, a tie going to the even one.\<close>

definition roundHalfEven :: "real \<Rightarrow> int" where
  "roundHalfEven x =
     (let n = \<lfloor>x\<rfloor>; f = x - of_int n
      in if f < 1 / 2 then n
         else if 1 / 2 < f then n + 1
         else if even n then n else n + 1)"

text \<open>
  The binary exponent of a positive real \<open>x\<close>: the \<open>e\<close> with \<open>2^e \<le> x < 2^(e+1)\<close>,
  computed from the bit length of \<open>\<lfloor>x\<rfloor>\<close> or of \<open>\<lceil>1/x\<rceil> - 1\<close>.
\<close>

definition binaryExponent :: "real \<Rightarrow> int" where
  "binaryExponent x =
     (if 1 \<le> x then bitlen \<lfloor>x\<rfloor> - 1 else - bitlen (\<lceil>1 / x\<rceil> - 1))"

text \<open>
  Rounding a magnitude to 53 significant bits (binary64, round to nearest, ties to
  even). Below \<open>2^-1022\<close> the exponent stays at \<open>-1022\<close>: subnormal numbers are
  multiples of \<open>2^-1074\<close>.
\<close>

definition roundMagnitude :: "real \<Rightarrow> real" where
  "roundMagnitude x =
     (let e = max (binaryExponent x) (- 1022);
          ulp = 2 powi (e - 52)
      in of_int (roundHalfEven (x / ulp)) * ulp)"

text \<open>
  The double nearest to a real: the rounded magnitude with the sign put back, and an
  infinity when the rounded magnitude reaches \<open>2^1024\<close>.
\<close>

definition roundDouble :: "real \<Rightarrow> jsnum" where
  "roundDouble x =
     (let r = roundMagnitude \<bar>x\<bar>
      in if 2 ^ 1024 \<le> r then (if x < 0 then NegInf else PosInf)
         else Fin (if x < 0 then - r else r))"

text \<open>The spacing of the doubles around a magnitude (used in the proofs).\<close>

definition ulpOf :: "real \<Rightarrow> real" where
  "ulpOf x = 2 powi (max (binaryExponent x) (- 1022) - 52)"

text \<open>
  The arithmetic of the source's operators: the exact result on finite operands,
  rounded; the IEEE rules on the special values. \<^verbatim>\<open>a - b\<close> is \<^verbatim>\<open>a + (-b)\<close>.
\<close>

fun jsNeg :: "jsnum \<Rightarrow> jsnum" where
  "jsNeg (Fin x) = Fin (- x)"
| "jsNeg PosInf = NegInf"
| "jsNeg NegInf = PosInf"
| "jsNeg NaN = NaN"

fun jsAdd :: "jsnum \<Rightarrow> jsnum \<Rightarrow> jsnum" where
  "jsAdd (Fin x) (Fin y) = roundDouble (x + y)"
| "jsAdd NaN b = NaN"
| "jsAdd a NaN = NaN"
| "jsAdd PosInf NegInf = NaN"
| "jsAdd NegInf PosInf = NaN"
| "jsAdd PosInf b = PosInf"
| "jsAdd a PosInf = PosInf"
| "jsAdd NegInf b = NegInf"
| "jsAdd a NegInf = NegInf"

definition jsSub :: "jsnum \<Rightarrow> jsnum \<Rightarrow> jsnum" where
  "jsSub a b = jsAdd a (jsNeg b)"

fun jsMul :: "jsnum \<Rightarrow> jsnum \<Rightarrow> jsnum" where
  "jsMul (Fin x) (Fin y) = roundDouble (x * y)"
| "jsMul NaN b = NaN"
| "jsMul a NaN = NaN"
| "jsMul (Fin x) PosInf = (if 0 < x then PosInf else if x < 0 then NegInf else NaN)"
| "jsMul (Fin x) NegInf = (if 0 < x then NegInf else if x < 0 then PosInf else NaN)"
| "jsMul PosInf (Fin y) = (if 0 < y then PosInf else if y < 0 then NegInf else NaN)"
| "jsMul NegInf (Fin y) = (if 0 < y then NegInf else if y < 0 then PosInf else NaN)"
| "jsMul PosInf PosInf = PosInf"
| "jsMul NegInf NegInf = PosInf"
| "jsMul PosInf NegInf = NegInf"
| "jsMul NegInf PosInf = NegInf"

text \<open>The comparisons \<^verbatim>\<open><\<close> and \<^verbatim>\<open><=\<close>: false whenever an operand is \<^verbatim>\<open>NaN\<close>.\<close>

fun jsLt :: "jsnum \<Rightarrow> jsnum \<Rightarrow> bool" where
  "jsLt (Fin x) (Fin y) = (x < y)"
| "jsLt NaN b = False"
| "jsLt a NaN = False"
| "jsLt PosInf b = False"
| "jsLt a NegInf = False"
| "jsLt a PosInf = True"
| "jsLt NegInf b = True"

fun jsLe :: "jsnum \<Rightarrow> jsnum \<Rightarrow> bool" where
  "jsLe (Fin x) (Fin y) = (x \<le> y)"
| "jsLe NaN b = False"
| "jsLe a NaN = False"
| "jsLe NegInf b = True"
| "jsLe a PosInf = True"
| "jsLe PosInf b = False"
| "jsLe a NegInf = False"

text \<open>\<^verbatim>\<open>Math.max\<close> and \<^verbatim>\<open>Math.min\<close> of two numbers: \<^verbatim>\<open>NaN\<close> when either is.\<close>

definition mathMax :: "jsnum \<Rightarrow> jsnum \<Rightarrow> jsnum" where
  "mathMax a b = (if a = NaN \<or> b = NaN then NaN else if jsLt a b then b else a)"

definition mathMin :: "jsnum \<Rightarrow> jsnum \<Rightarrow> jsnum" where
  "mathMin a b = (if a = NaN \<or> b = NaN then NaN else if jsLt b a then b else a)"

text \<open>
  \<^verbatim>\<open>calculateOrderFlowScore(orderBook)\<close> over doubles. The literals \<^verbatim>\<open>0.5\<close>,
  \<^verbatim>\<open>60\<close>, \<^verbatim>\<open>30\<close> and \<^verbatim>\<open>-30\<close> are doubles.
\<close>

record orderBook64 =
  bidVolume64 :: jsnum
  askVolume64 :: jsnum
  imbalance64 :: jsnum

definition calculateOrderFlowScore64 :: "orderBook64 \<Rightarrow> jsnum" where
  "calculateOrderFlowScore64 ob =
     (let score = jsMul (jsSub (imbalance64 ob) (Fin 0.5)) (Fin 60)
      in mathMax (Fin (- 30)) (mathMin (Fin 30) score))"

text \<open>
  \<^verbatim>\<open>calculateEMA(data, period)\<close> over doubles. \<^verbatim>\<open>period + 1\<close> is exact for the
  periods the engine uses (9, 12, 26) and is never zero; the quotient is rounded.
\<close>

definition calculateEMA64 :: "jsnum list \<Rightarrow> nat \<Rightarrow> jsnum" where
  "calculateEMA64 data period =
     (case data of
        [] \<Rightarrow> Fin 0
      | d0 # rest \<Rightarrow>
          let multiplier = roundDouble (2 / (real period + 1))
          in fold (\<lambda>x ema. jsAdd (jsMul (jsSub x ema) multiplier) ema) rest d0)"

text \<open>\<^verbatim>\<open>calculateMACD(closes)\<close> over doubles.\<close>

record macdResult64 =
  macd64 :: jsnum
  signal64 :: jsnum
  histogram64 :: jsnum

definition calculateMACD64 :: "jsnum list \<Rightarrow> macdResult64" where
  "calculateMACD64 closes =
     (let ema12 = calculateEMA64 closes 12;
          ema26 = calculateEMA64 closes 26;
          m = jsSub ema12 ema26;
          s = calculateEMA64 (replicate 9 m) 9
      in \<lparr>macd64 = m, signal64 = s, histogram64 = jsSub m s\<rparr>)"

text \<open>
  \<open>clamp(x, lo, hi)\<close> of the specification over doubles, with the comparisons of
  the language.
\<close>

definition spec_clamp64 :: "jsnum \<Rightarrow> jsnum \<Rightarrow> jsnum \<Rightarrow> jsnum" where
  "spec_clamp64 x lo hi = (if jsLt x lo then lo else if jsLt hi x then hi else x)"

text \<open>\<^verbatim>\<open>===\<close> on numbers: \<^verbatim>\<open>NaN\<close> equals nothing.\<close>

definition jsStrictEquals :: "jsnum \<Rightarrow> jsnum \<Rightarrow> bool" where
  "jsStrictEquals a b = (a \<noteq> NaN \<and> b \<noteq> NaN \<and> a = b)"

section \<open>Helper lemmas\<close>


lemma fold_replicate_fixed:
  "f m a = a \<Longrightarrow> fold f (replicate n m) a = a"
  by (induction n) simp_all

lemma calculateEMA_constant:
  assumes "0 < n"
  shows "calculateEMA (replicate n m) p = m"
proof -
  from assms obtain k where n: "n = Suc k"
    by (cases n) auto
  have "calculateEMA (replicate n m) p =
      fold (\<lambda>x ema. (x - ema) * (2 / (real p + 1)) + ema) (replicate k m) m"
    unfolding n calculateEMA_def Let_def replicate_Suc list.case ..
  also have "\<dots> = m"
    by (rule fold_replicate_fixed) simp
  finally show ?thesis .
qed

text \<open>
  What a returned signal carries of the direction block: its direction and
  \<^verbatim>\<open>tradeable\<close> are the block's, and its confidence is the rounded pre-threshold
  confidence when tradeable and \<^verbatim>\<open>null\<close> otherwise.
\<close>

lemma generateSignal_fields:
  assumes "generateSignal symb tf aggr klines ob now = Inr s"
  shows "determineDirection aggr
           (map_option (\<lambda>m. computeConfidence (calculateOrderFlowScore ob) m
                               (calculateSentimentScore klines))
              (calculateMomentumScore klines))
         = Inr (direction s, tradeable s,
                if tradeable s then
                  map_option (\<lambda>m. computeConfidence (calculateOrderFlowScore ob) m
                                      (calculateSentimentScore klines))
                    (calculateMomentumScore klines)
                else None)
         \<and> confidence s =
             (if tradeable s then
                map_option (\<lambda>m. mathRound (computeConfidence (calculateOrderFlowScore ob) m
                                      (calculateSentimentScore klines)))
                    (calculateMomentumScore klines)
                else None)"
  using assms
  by (auto simp add: generateSignal_def determineDirection_def Let_def
           split: sum.splits option.splits prod.splits threshLookup.splits if_splits)

lemma determineDirection_shape:
  assumes "determineDirection aggr conf = Inr (d, t, c')"
  shows "(t \<longleftrightarrow> d \<noteq> FLAT) \<and> (c' = None \<longleftrightarrow> d = FLAT) \<and> (t \<longrightarrow> c' = conf)"
  using assms
  by (auto simp add: determineDirection_def
           split: option.splits threshLookup.splits if_splits)

text \<open>
  A full run: no candle (momentum and sentiment take their defaults), an order book
  with bids only, the aggressive tier. The raw score is \<open>10.5\<close>, the confidence
  \<open>67.535\<close>, above the UP threshold of \<open>60\<close>, and rounds to \<open>68\<close>.
\<close>

lemma generateSignal_example:
  "generateSignal ''BTC'' ''15m'' ''aggressive'' []
       \<lparr>bidVolume = 20, askVolume = 0, imbalance = 1\<rparr> 0
   = Inr \<lparr>market_id = ''btc-usd'', symbol = ''BTC/USD'', timeframe = ''15m'',
          direction = UP, confidence = Some 68, tradeable = True,
          order_flow_score = 30, momentum_score = Some 0, sentiment_score = 0,
          gates = \<lparr>volatility_pass = False, liquidity_pass = True, conflict_pass = True,
                    time_pass = True, correlation_pass = True\<rparr>,
          generated_at = 0, hold_until = 300000, expires_at = None\<rparr>"
  by (simp add: generateSignal_def calculateOrderFlowScore_def calculateMomentumScore_def
        calculateSentimentScore_def computeConfidence_def confluenceAdjustment_def
        determineDirection_def THRESHOLDS_def HOLD_PERIODS_def checkRiskGates_def
        sliceLast_def toLowerCase_def mathRound_def round1_def Let_def)

text \<open>
  A second run: no candle and a balanced order book. All three scores are \<open>0\<close>, the
  confidence is exactly \<open>50\<close>, between the aggressive thresholds.
\<close>

lemma generateSignal_flat_example:
  "generateSignal ''ETH'' ''1h'' ''aggressive'' []
       \<lparr>bidVolume = 5, askVolume = 5, imbalance = 0.5\<rparr> 0
   = Inr \<lparr>market_id = ''eth-usd'', symbol = ''ETH/USD'', timeframe = ''1h'',
          direction = FLAT, confidence = None, tradeable = False,
          order_flow_score = 0, momentum_score = Some 0, sentiment_score = 0,
          gates = \<lparr>volatility_pass = False, liquidity_pass = False, conflict_pass = False,
                    time_pass = True, correlation_pass = True\<rparr>,
          generated_at = 0, hold_until = 900000, expires_at = None\<rparr>"
  by (simp add: generateSignal_def calculateOrderFlowScore_def calculateMomentumScore_def
        calculateSentimentScore_def computeConfidence_def confluenceAdjustment_def
        determineDirection_def THRESHOLDS_def HOLD_PERIODS_def checkRiskGates_def
        sliceLast_def toLowerCase_def mathRound_def round1_def Let_def)

lemma computeConfidence_flat_example:
  "computeConfidence
     (calculateOrderFlowScore \<lparr>bidVolume = 5, askVolume = 5, imbalance = 0.5\<rparr>) 0
     (calculateSentimentScore []) = 50"
  by (simp add: calculateOrderFlowScore_def calculateSentimentScore_def
        computeConfidence_def confluenceAdjustment_def Let_def)

lemma generateSignal_down_example:
  "generateSignal ''SOL'' ''daily'' ''aggressive'' []
       \<lparr>bidVolume = 0, askVolume = 20, imbalance = 0\<rparr> 0
   = Inr \<lparr>market_id = ''sol-usd'', symbol = ''SOL/USD'', timeframe = ''daily'',
          direction = DOWN, confidence = Some 32, tradeable = True,
          order_flow_score = - 30, momentum_score = Some 0, sentiment_score = 0,
          gates = \<lparr>volatility_pass = False, liquidity_pass = True, conflict_pass = True,
                    time_pass = True, correlation_pass = True\<rparr>,
          generated_at = 0, hold_until = 1800000, expires_at = None\<rparr>"
  by (simp add: generateSignal_def calculateOrderFlowScore_def calculateMomentumScore_def
        calculateSentimentScore_def computeConfidence_def confluenceAdjustment_def
        determineDirection_def THRESHOLDS_def HOLD_PERIODS_def checkRiskGates_def
        sliceLast_def toLowerCase_def mathRound_def round1_def Let_def)

lemma computeConfidence_up_example:
  "computeConfidence
     (calculateOrderFlowScore \<lparr>bidVolume = 20, askVolume = 0, imbalance = 1\<rparr>) 0
     (calculateSentimentScore []) = 67.535"
  by (simp add: calculateOrderFlowScore_def calculateSentimentScore_def
        computeConfidence_def confluenceAdjustment_def Let_def)

lemma computeConfidence_down_example:
  "computeConfidence
     (calculateOrderFlowScore \<lparr>bidVolume = 0, askVolume = 20, imbalance = 0\<rparr>) 0
     (calculateSentimentScore []) = 32.465"
  by (simp add: calculateOrderFlowScore_def calculateSentimentScore_def
        computeConfidence_def confluenceAdjustment_def Let_def)

lemma generateSignal_decision:
  assumes g: "generateSignal symb tf aggr klines ob now = Inr s"
    and m: "calculateMomentumScore klines = Some m"
    and c: "computeConfidence (calculateOrderFlowScore ob) m (calculateSentimentScore klines) = c"
  shows "determineDirection aggr (Some c)
           = Inr (direction s, tradeable s, if tradeable s then Some c else None)"
    and "confidence s = (if tradeable s then Some (mathRound c) else None)"
  using generateSignal_fields [OF g] by (simp_all add: m c)

lemma calculateMACD_histogram: "histogram (calculateMACD closes) = 0"
  by (simp add: calculateMACD_def Let_def calculateEMA_constant)

text \<open>
  A third run, with every score bullish. The first fifteen closes fall by one (RSI
  \<open>0\<close>, oversold), the last five rise by five (trend term \<open>10\<close>): the momentum
  score is \<open>30\<close>, the sentiment score \<open>8\<close>, the order-flow score \<open>30\<close>. The raw
  score is \<open>24.5\<close>, the remapped confidence \<open>90.915\<close>, and with the confluence
  boost \<open>98.915\<close>, which rounds to \<open>99\<close>.
\<close>

lemma momentum_bullish_example:
  "calculateMomentumScore
     (map (\<lambda>c. \<lparr>high = c, low = c, close = c, volume = 1\<rparr>)
        [114, 113, 112, 111, 110, 109, 108, 107, 106, 105, 104, 103, 102, 101, 100,
         105, 110, 115, 120, 125]) = Some 30"
  by (simp add: calculateMomentumScore_def calculateRSI_def rsiStep_def
        calculateMACD_histogram sliceLast_def Let_def upt_rec [of _ "numeral _"])

lemma sentiment_bullish_example:
  "calculateSentimentScore
     (map (\<lambda>c. \<lparr>high = c, low = c, close = c, volume = 1\<rparr>)
        [114, 113, 112, 111, 110, 109, 108, 107, 106, 105, 104, 103, 102, 101, 100,
         105, 110, 115, 120, 125]) = 8"
  by (simp add: calculateSentimentScore_def sliceLast_def Let_def)

lemma orderFlow_bullish_example:
  "calculateOrderFlowScore \<lparr>bidVolume = 20, askVolume = 0, imbalance = 1\<rparr> = 30"
  by (simp add: calculateOrderFlowScore_def)

lemma generateSignal_bullish_example:
  "generateSignal ''BTC'' ''15m'' ''aggressive''
     (map (\<lambda>c. \<lparr>high = c, low = c, close = c, volume = 1\<rparr>)
        [114, 113, 112, 111, 110, 109, 108, 107, 106, 105, 104, 103, 102, 101, 100,
         105, 110, 115, 120, 125])
     \<lparr>bidVolume = 20, askVolume = 0, imbalance = 1\<rparr> 0
   = Inr \<lparr>market_id = ''btc-usd'', symbol = ''BTC/USD'', timeframe = ''15m'',
          direction = UP, confidence = Some 99, tradeable = True,
          order_flow_score = 30, momentum_score = Some 30, sentiment_score = 8,
          gates = \<lparr>volatility_pass = True, liquidity_pass = True, conflict_pass = True,
                    time_pass = True, correlation_pass = True\<rparr>,
          generated_at = 0, hold_until = 300000, expires_at = None\<rparr>"
  unfolding generateSignal_def momentum_bullish_example sentiment_bullish_example
    orderFlow_bullish_example
  by (simp add: computeConfidence_def confluenceAdjustment_def
        determineDirection_def THRESHOLDS_def HOLD_PERIODS_def checkRiskGates_def
        sliceLast_def toLowerCase_def mathRound_def round1_def Let_def)

section \<open>Signal invariants\<close>

text \<open>
  Claim C1. Every signal \<^verbatim>\<open>generateSignal\<close> returns is tradeable exactly when its
  direction is not FLAT, and its confidence is \<^verbatim>\<open>null\<close> exactly when its direction
  is FLAT; a confidence that is not \<^verbatim>\<open>null\<close> is the integer \<^verbatim>\<open>Math.round\<close> gives
  for the pre-threshold confidence of the three scores.
\<close>

theorem generateSignal_invariant:
  assumes "generateSignal symb tf aggr klines ob now = Inr s"
  shows "(tradeable s \<longleftrightarrow> direction s \<noteq> FLAT)
     \<and> (confidence s = None \<longleftrightarrow> direction s = FLAT)
     \<and> (\<forall>n. confidence s = Some n \<longrightarrow>
          (\<exists>m. calculateMomentumScore klines = Some m
             \<and> n = mathRound (computeConfidence (calculateOrderFlowScore ob) m
                     (calculateSentimentScore klines))))"
proof -
  let ?conf = "map_option (\<lambda>m. computeConfidence (calculateOrderFlowScore ob) m
                   (calculateSentimentScore klines)) (calculateMomentumScore klines)"
  from generateSignal_fields [OF assms]
  have d: "determineDirection aggr ?conf
             = Inr (direction s, tradeable s, if tradeable s then ?conf else None)"
    and c: "confidence s =
             (if tradeable s then
                map_option (\<lambda>m. mathRound (computeConfidence (calculateOrderFlowScore ob) m
                                      (calculateSentimentScore klines)))
                    (calculateMomentumScore klines)
                else None)"
    by simp_all
  note sh = determineDirection_shape [OF d]
  have t: "tradeable s \<longleftrightarrow> direction s \<noteq> FLAT"
    using sh by blast
  have n: "(if tradeable s then ?conf else None) = None \<longleftrightarrow> direction s = FLAT"
    using sh by blast
  have "confidence s = None \<longleftrightarrow> direction s = FLAT"
    using n c by (auto split: if_splits)
  moreover have "\<forall>n. confidence s = Some n \<longrightarrow>
          (\<exists>m. calculateMomentumScore klines = Some m
             \<and> n = mathRound (computeConfidence (calculateOrderFlowScore ob) m
                     (calculateSentimentScore klines)))"
    using c by (auto split: if_splits)
  ultimately show ?thesis using t by simp
qed

theorem generateSignal_invariant_witness:
  "\<exists>s. generateSignal ''BTC'' ''15m'' ''aggressive'' []
           \<lparr>bidVolume = 20, askVolume = 0, imbalance = 1\<rparr> 0 = Inr s
       \<and> tradeable s \<and> direction s = UP \<and> confidence s = Some 68"
  using generateSignal_invariant [OF generateSignal_example] generateSignal_example
  by simp

section \<open>Direction thresholds\<close>

text \<open>
  Claim C2. For every confidence \<open>c\<close> the direction block decides: under the
  conservative tier UP iff \<open>c \<ge> 70\<close> and DOWN iff \<open>c \<le> 30\<close>; under the moderate
  tier UP iff \<open>c \<ge> 62\<close> and DOWN iff \<open>c \<le> 38\<close>; under the aggressive tier UP iff
  \<open>c \<ge> 60\<close> and DOWN iff \<open>c \<le> 40\<close>; strictly between the two thresholds it is
  FLAT, not tradeable, with a \<^verbatim>\<open>null\<close> confidence. The record \<^verbatim>\<open>generateSignal\<close>
  returns carries that decision for the confidence \<open>c\<close> it computed from the three
  scores, whatever \<open>c\<close> is: its direction is UP, DOWN or FLAT by the same
  comparisons, it is tradeable iff not FLAT, and its confidence is \<^verbatim>\<open>null\<close> when
  FLAT and the rounded \<open>c\<close> otherwise. A confidence of exactly \<open>50\<close> under the
  aggressive tier gives FLAT with a \<^verbatim>\<open>null\<close> confidence.
\<close>

theorem direction_by_tier:
  "(determineDirection ''conservative'' (Some c) = Inr (UP, True, Some c) \<longleftrightarrow> c \<ge> 70)
   \<and> (determineDirection ''conservative'' (Some c) = Inr (DOWN, True, Some c) \<longleftrightarrow> c \<le> 30)
   \<and> (determineDirection ''conservative'' (Some c) = Inr (FLAT, False, None)
        \<longleftrightarrow> 30 < c \<and> c < 70)
   \<and> (determineDirection ''moderate'' (Some c) = Inr (UP, True, Some c) \<longleftrightarrow> c \<ge> 62)
   \<and> (determineDirection ''moderate'' (Some c) = Inr (DOWN, True, Some c) \<longleftrightarrow> c \<le> 38)
   \<and> (determineDirection ''moderate'' (Some c) = Inr (FLAT, False, None)
        \<longleftrightarrow> 38 < c \<and> c < 62)
   \<and> (determineDirection ''aggressive'' (Some c) = Inr (UP, True, Some c) \<longleftrightarrow> c \<ge> 60)
   \<and> (determineDirection ''aggressive'' (Some c) = Inr (DOWN, True, Some c) \<longleftrightarrow> c \<le> 40)
   \<and> (determineDirection ''aggressive'' (Some c) = Inr (FLAT, False, None)
        \<longleftrightarrow> 40 < c \<and> c < 60)
   \<and> determineDirection ''aggressive'' (Some 50) = Inr (FLAT, False, None)
   \<and> (generateSignal symb tf ''aggressive'' klines ob now = Inr s
        \<and> calculateMomentumScore klines = Some m
        \<and> computeConfidence (calculateOrderFlowScore ob) m (calculateSentimentScore klines) = 50
        \<longrightarrow> direction s = FLAT \<and> \<not> tradeable s \<and> confidence s = None)
   \<and> (generateSignal symb tf aggr klines ob now = Inr s
        \<and> calculateMomentumScore klines = Some m
        \<and> computeConfidence (calculateOrderFlowScore ob) m (calculateSentimentScore klines) = c
        \<longrightarrow>
          (aggr = ''conservative'' \<longrightarrow>
             (direction s = UP \<longleftrightarrow> c \<ge> 70) \<and> (direction s = DOWN \<longleftrightarrow> c \<le> 30)
             \<and> (direction s = FLAT \<longleftrightarrow> 30 < c \<and> c < 70))
          \<and> (aggr = ''moderate'' \<longrightarrow>
             (direction s = UP \<longleftrightarrow> c \<ge> 62) \<and> (direction s = DOWN \<longleftrightarrow> c \<le> 38)
             \<and> (direction s = FLAT \<longleftrightarrow> 38 < c \<and> c < 62))
          \<and> (aggr = ''aggressive'' \<longrightarrow>
             (direction s = UP \<longleftrightarrow> c \<ge> 60) \<and> (direction s = DOWN \<longleftrightarrow> c \<le> 40)
             \<and> (direction s = FLAT \<longleftrightarrow> 40 < c \<and> c < 60))
          \<and> (tradeable s \<longleftrightarrow> direction s \<noteq> FLAT)
          \<and> confidence s = (if direction s = FLAT then None else Some (mathRound c)))"
proof -
  have tiers:
    "(determineDirection ''conservative'' (Some c) = Inr (UP, True, Some c) \<longleftrightarrow> c \<ge> 70)
   \<and> (determineDirection ''conservative'' (Some c) = Inr (DOWN, True, Some c) \<longleftrightarrow> c \<le> 30)
   \<and> (determineDirection ''conservative'' (Some c) = Inr (FLAT, False, None)
        \<longleftrightarrow> 30 < c \<and> c < 70)
   \<and> (determineDirection ''moderate'' (Some c) = Inr (UP, True, Some c) \<longleftrightarrow> c \<ge> 62)
   \<and> (determineDirection ''moderate'' (Some c) = Inr (DOWN, True, Some c) \<longleftrightarrow> c \<le> 38)
   \<and> (determineDirection ''moderate'' (Some c) = Inr (FLAT, False, None)
        \<longleftrightarrow> 38 < c \<and> c < 62)
   \<and> (determineDirection ''aggressive'' (Some c) = Inr (UP, True, Some c) \<longleftrightarrow> c \<ge> 60)
   \<and> (determineDirection ''aggressive'' (Some c) = Inr (DOWN, True, Some c) \<longleftrightarrow> c \<le> 40)
   \<and> (determineDirection ''aggressive'' (Some c) = Inr (FLAT, False, None)
        \<longleftrightarrow> 40 < c \<and> c < 60)"
    by (simp add: determineDirection_def THRESHOLDS_def not_le)
  have fifty: "determineDirection ''aggressive'' (Some 50) = Inr (FLAT, False, None)"
    by (simp add: determineDirection_def THRESHOLDS_def)
  have run: "direction s = FLAT \<and> \<not> tradeable s \<and> confidence s = None"
    if g: "generateSignal symb tf ''aggressive'' klines ob now = Inr s"
      and m: "calculateMomentumScore klines = Some m"
      and c50: "computeConfidence (calculateOrderFlowScore ob) m
                  (calculateSentimentScore klines) = 50"
  proof -
    from generateSignal_fields [OF g]
    have "determineDirection ''aggressive'' (Some 50) =
        Inr (direction s, tradeable s, if tradeable s then Some 50 else None)"
      and conf: "confidence s = (if tradeable s then Some (mathRound 50) else None)"
      by (simp_all add: m c50)
    with fifty have "direction s = FLAT" and "\<not> tradeable s"
      by simp_all
    with conf show ?thesis by simp
  qed
  have every: "(aggr = ''conservative'' \<longrightarrow>
             (direction s = UP \<longleftrightarrow> c \<ge> 70) \<and> (direction s = DOWN \<longleftrightarrow> c \<le> 30)
             \<and> (direction s = FLAT \<longleftrightarrow> 30 < c \<and> c < 70))
          \<and> (aggr = ''moderate'' \<longrightarrow>
             (direction s = UP \<longleftrightarrow> c \<ge> 62) \<and> (direction s = DOWN \<longleftrightarrow> c \<le> 38)
             \<and> (direction s = FLAT \<longleftrightarrow> 38 < c \<and> c < 62))
          \<and> (aggr = ''aggressive'' \<longrightarrow>
             (direction s = UP \<longleftrightarrow> c \<ge> 60) \<and> (direction s = DOWN \<longleftrightarrow> c \<le> 40)
             \<and> (direction s = FLAT \<longleftrightarrow> 40 < c \<and> c < 60))
          \<and> (tradeable s \<longleftrightarrow> direction s \<noteq> FLAT)
          \<and> confidence s = (if direction s = FLAT then None else Some (mathRound c))"
    if g: "generateSignal symb tf aggr klines ob now = Inr s"
      and m: "calculateMomentumScore klines = Some m"
      and c: "computeConfidence (calculateOrderFlowScore ob) m
                  (calculateSentimentScore klines) = c"
  proof -
    note d = generateSignal_decision [OF g m c]
    note sh = determineDirection_shape [OF d(1)]
    have t: "tradeable s \<longleftrightarrow> direction s \<noteq> FLAT"
      using sh by blast
    have conf: "confidence s = (if direction s = FLAT then None else Some (mathRound c))"
      using d(2) t by simp
    have dirs: "(aggr = ''conservative'' \<longrightarrow>
             (direction s = UP \<longleftrightarrow> c \<ge> 70) \<and> (direction s = DOWN \<longleftrightarrow> c \<le> 30)
             \<and> (direction s = FLAT \<longleftrightarrow> 30 < c \<and> c < 70))
          \<and> (aggr = ''moderate'' \<longrightarrow>
             (direction s = UP \<longleftrightarrow> c \<ge> 62) \<and> (direction s = DOWN \<longleftrightarrow> c \<le> 38)
             \<and> (direction s = FLAT \<longleftrightarrow> 38 < c \<and> c < 62))
          \<and> (aggr = ''aggressive'' \<longrightarrow>
             (direction s = UP \<longleftrightarrow> c \<ge> 60) \<and> (direction s = DOWN \<longleftrightarrow> c \<le> 40)
             \<and> (direction s = FLAT \<longleftrightarrow> 40 < c \<and> c < 60))"
      using d(1)
      by (auto simp add: determineDirection_def THRESHOLDS_def split: if_splits)
    from dirs t conf show ?thesis by blast
  qed
  have r: "generateSignal symb tf ''aggressive'' klines ob now = Inr s
        \<and> calculateMomentumScore klines = Some m
        \<and> computeConfidence (calculateOrderFlowScore ob) m (calculateSentimentScore klines) = 50
        \<longrightarrow> direction s = FLAT \<and> \<not> tradeable s \<and> confidence s = None"
    by (intro impI, elim conjE, rule run)
  have e: "generateSignal symb tf aggr klines ob now = Inr s
        \<and> calculateMomentumScore klines = Some m
        \<and> computeConfidence (calculateOrderFlowScore ob) m (calculateSentimentScore klines) = c
        \<longrightarrow>
          (aggr = ''conservative'' \<longrightarrow>
             (direction s = UP \<longleftrightarrow> c \<ge> 70) \<and> (direction s = DOWN \<longleftrightarrow> c \<le> 30)
             \<and> (direction s = FLAT \<longleftrightarrow> 30 < c \<and> c < 70))
          \<and> (aggr = ''moderate'' \<longrightarrow>
             (direction s = UP \<longleftrightarrow> c \<ge> 62) \<and> (direction s = DOWN \<longleftrightarrow> c \<le> 38)
             \<and> (direction s = FLAT \<longleftrightarrow> 38 < c \<and> c < 62))
          \<and> (aggr = ''aggressive'' \<longrightarrow>
             (direction s = UP \<longleftrightarrow> c \<ge> 60) \<and> (direction s = DOWN \<longleftrightarrow> c \<le> 40)
             \<and> (direction s = FLAT \<longleftrightarrow> 40 < c \<and> c < 60))
          \<and> (tradeable s \<longleftrightarrow> direction s \<noteq> FLAT)
          \<and> confidence s = (if direction s = FLAT then None else Some (mathRound c))"
    by (intro impI, elim conjE, rule every)
  have rest: "determineDirection ''aggressive'' (Some 50) = Inr (FLAT, False, None)
   \<and> (generateSignal symb tf ''aggressive'' klines ob now = Inr s
        \<and> calculateMomentumScore klines = Some m
        \<and> computeConfidence (calculateOrderFlowScore ob) m (calculateSentimentScore klines) = 50
        \<longrightarrow> direction s = FLAT \<and> \<not> tradeable s \<and> confidence s = None)
   \<and> (generateSignal symb tf aggr klines ob now = Inr s
        \<and> calculateMomentumScore klines = Some m
        \<and> computeConfidence (calculateOrderFlowScore ob) m (calculateSentimentScore klines) = c
        \<longrightarrow>
          (aggr = ''conservative'' \<longrightarrow>
             (direction s = UP \<longleftrightarrow> c \<ge> 70) \<and> (direction s = DOWN \<longleftrightarrow> c \<le> 30)
             \<and> (direction s = FLAT \<longleftrightarrow> 30 < c \<and> c < 70))
          \<and> (aggr = ''moderate'' \<longrightarrow>
             (direction s = UP \<longleftrightarrow> c \<ge> 62) \<and> (direction s = DOWN \<longleftrightarrow> c \<le> 38)
             \<and> (direction s = FLAT \<longleftrightarrow> 38 < c \<and> c < 62))
          \<and> (aggr = ''aggressive'' \<longrightarrow>
             (direction s = UP \<longleftrightarrow> c \<ge> 60) \<and> (direction s = DOWN \<longleftrightarrow> c \<le> 40)
             \<and> (direction s = FLAT \<longleftrightarrow> 40 < c \<and> c < 60))
          \<and> (tradeable s \<longleftrightarrow> direction s \<noteq> FLAT)
          \<and> confidence s = (if direction s = FLAT then None else Some (mathRound c)))"
    by (rule conjI [OF fifty conjI [OF r e]])
  show ?thesis
    using conjI [OF tiers rest] unfolding conj_assoc .
qed

theorem direction_by_tier_witness:
  "determineDirection ''aggressive'' (Some 50) = Inr (FLAT, False, None)
   \<and> determineDirection ''aggressive'' (Some 60) = Inr (UP, True, Some 60)
   \<and> determineDirection ''aggressive'' (Some 40) = Inr (DOWN, True, Some 40)
   \<and> (\<exists>s. generateSignal ''ETH'' ''1h'' ''aggressive'' []
              \<lparr>bidVolume = 5, askVolume = 5, imbalance = 0.5\<rparr> 0 = Inr s
          \<and> direction s = FLAT \<and> \<not> tradeable s \<and> confidence s = None)
   \<and> (\<exists>s. generateSignal ''BTC'' ''15m'' ''aggressive'' []
              \<lparr>bidVolume = 20, askVolume = 0, imbalance = 1\<rparr> 0 = Inr s
          \<and> direction s = UP \<and> tradeable s \<and> confidence s = Some 68)
   \<and> (\<exists>s. generateSignal ''SOL'' ''daily'' ''aggressive'' []
              \<lparr>bidVolume = 0, askVolume = 20, imbalance = 0\<rparr> 0 = Inr s
          \<and> direction s = DOWN \<and> tradeable s \<and> confidence s = Some 32)"
proof -
  have m: "calculateMomentumScore [] = Some 0"
    by (simp add: calculateMomentumScore_def)
  have r1: "mathRound 67.535 = 68" and r2: "mathRound 32.465 = 32"
    by (simp_all add: mathRound_def)
  from direction_by_tier
    [of 50 "''ETH''" "''1h''" "[]" "\<lparr>bidVolume = 5, askVolume = 5, imbalance = 0.5\<rparr>" 0 _ 0]
    generateSignal_flat_example m computeConfidence_flat_example
  have flat: "\<exists>s. generateSignal ''ETH'' ''1h'' ''aggressive'' []
              \<lparr>bidVolume = 5, askVolume = 5, imbalance = 0.5\<rparr> 0 = Inr s
          \<and> direction s = FLAT \<and> \<not> tradeable s \<and> confidence s = None"
    by simp
  from direction_by_tier
    [of "67.535" "''BTC''" "''15m''" "[]" "\<lparr>bidVolume = 20, askVolume = 0, imbalance = 1\<rparr>" 0 _ 0
        "''aggressive''"]
    generateSignal_example m computeConfidence_up_example r1
  have up: "\<exists>s. generateSignal ''BTC'' ''15m'' ''aggressive'' []
              \<lparr>bidVolume = 20, askVolume = 0, imbalance = 1\<rparr> 0 = Inr s
          \<and> direction s = UP \<and> tradeable s \<and> confidence s = Some 68"
    by simp
  from direction_by_tier
    [of "32.465" "''SOL''" "''daily''" "[]" "\<lparr>bidVolume = 0, askVolume = 20, imbalance = 0\<rparr>" 0 _ 0
        "''aggressive''"]
    generateSignal_down_example m computeConfidence_down_example r2
  have down: "\<exists>s. generateSignal ''SOL'' ''daily'' ''aggressive'' []
              \<lparr>bidVolume = 0, askVolume = 20, imbalance = 0\<rparr> 0 = Inr s
          \<and> direction s = DOWN \<and> tradeable s \<and> confidence s = Some 32"
    by simp
  from flat up down show ?thesis
    using direction_by_tier [of 60] direction_by_tier [of 40]
    by (simp add: determineDirection_def THRESHOLDS_def)
qed

section \<open>Confidence\<close>



text \<open>
  Claim C4. The confluence adjustment is \<open>+8\<close> iff \<open>orderFlow > 10\<close>,
  \<open>momentum > 10\<close> and \<open>sentiment > 5\<close>, all strict; it is \<open>-8\<close> iff
  \<open>orderFlow < -10\<close>, \<open>momentum < -10\<close> and \<open>sentiment < -5\<close>; otherwise nothing is
  added. The amount is applied to the confidence: the confidence of
  \<^verbatim>\<open>generateSignal\<close> is the remapped weighted sum plus \<open>8\<close>, minus \<open>8\<close> or
  unchanged by these conditions, clamped to \<open>[0, 100]\<close>, and a tradeable signal
  carries its rounding. A momentum of exactly \<open>10\<close> gets no bonus, and with the two
  other conditions met every momentum strictly above \<open>10\<close> gets it.
\<close>

theorem confluence_adjustment_iff:
  "(confluenceAdjustment orderFlow momentum sentiment = 8
      \<longleftrightarrow> orderFlow > 10 \<and> momentum > 10 \<and> sentiment > 5)
   \<and> (confluenceAdjustment orderFlow momentum sentiment = - 8
      \<longleftrightarrow> orderFlow < - 10 \<and> momentum < - 10 \<and> sentiment < - 5)
   \<and> (confluenceAdjustment orderFlow momentum sentiment = 0
      \<longleftrightarrow> \<not> (orderFlow > 10 \<and> momentum > 10 \<and> sentiment > 5)
        \<and> \<not> (orderFlow < - 10 \<and> momentum < - 10 \<and> sentiment < - 5))
   \<and> confluenceAdjustment orderFlow 10 sentiment = 0
   \<and> (orderFlow > 10 \<and> sentiment > 5 \<longrightarrow>
        (confluenceAdjustment orderFlow momentum sentiment = 8 \<longleftrightarrow> momentum > 10))
   \<and> computeConfidence orderFlow momentum sentiment =
        max 0 (min 100
          (50 + (orderFlow * 0.35 + momentum * 0.40 + sentiment * 0.25) * 1.67
           + (if orderFlow > 10 \<and> momentum > 10 \<and> sentiment > 5 then 8
              else if orderFlow < - 10 \<and> momentum < - 10 \<and> sentiment < - 5 then - 8
              else 0)))
   \<and> computeConfidence orderFlow 10 sentiment =
        max 0 (min 100 (50 + (orderFlow * 0.35 + 10 * 0.40 + sentiment * 0.25) * 1.67))
   \<and> (orderFlow > 10 \<and> momentum > 10 \<and> sentiment > 5 \<longrightarrow>
        computeConfidence orderFlow momentum sentiment =
          max 0 (min 100
            (50 + (orderFlow * 0.35 + momentum * 0.40 + sentiment * 0.25) * 1.67 + 8)))
   \<and> (generateSignal symb tf aggr klines ob now = Inr s
        \<and> calculateMomentumScore klines = Some momentum
        \<and> calculateOrderFlowScore ob = orderFlow
        \<and> calculateSentimentScore klines = sentiment
        \<and> tradeable s
        \<longrightarrow> confidence s = Some (mathRound (max 0 (min 100
          (50 + (orderFlow * 0.35 + momentum * 0.40 + sentiment * 0.25) * 1.67
           + (if orderFlow > 10 \<and> momentum > 10 \<and> sentiment > 5 then 8
              else if orderFlow < - 10 \<and> momentum < - 10 \<and> sentiment < - 5 then - 8
              else 0))))))"
proof -
  have adj: "(confluenceAdjustment orderFlow momentum sentiment = 8
      \<longleftrightarrow> orderFlow > 10 \<and> momentum > 10 \<and> sentiment > 5)
   \<and> (confluenceAdjustment orderFlow momentum sentiment = - 8
      \<longleftrightarrow> orderFlow < - 10 \<and> momentum < - 10 \<and> sentiment < - 5)
   \<and> (confluenceAdjustment orderFlow momentum sentiment = 0
      \<longleftrightarrow> \<not> (orderFlow > 10 \<and> momentum > 10 \<and> sentiment > 5)
        \<and> \<not> (orderFlow < - 10 \<and> momentum < - 10 \<and> sentiment < - 5))
   \<and> confluenceAdjustment orderFlow 10 sentiment = 0
   \<and> (orderFlow > 10 \<and> sentiment > 5 \<longrightarrow>
        (confluenceAdjustment orderFlow momentum sentiment = 8 \<longleftrightarrow> momentum > 10))"
    by (auto simp add: confluenceAdjustment_def Let_def)
  have applied: "computeConfidence a b d =
        max 0 (min 100
          (50 + (a * 0.35 + b * 0.40 + d * 0.25) * 1.67
           + (if a > 10 \<and> b > 10 \<and> d > 5 then 8
              else if a < - 10 \<and> b < - 10 \<and> d < - 5 then - 8
              else 0)))" for a b d
    by (simp add: computeConfidence_def confluenceAdjustment_def Let_def)
  have ten: "computeConfidence orderFlow 10 sentiment =
        max 0 (min 100 (50 + (orderFlow * 0.35 + 10 * 0.40 + sentiment * 0.25) * 1.67))"
    unfolding applied by simp
  have bull: "computeConfidence orderFlow momentum sentiment =
          max 0 (min 100
            (50 + (orderFlow * 0.35 + momentum * 0.40 + sentiment * 0.25) * 1.67 + 8))"
    if "orderFlow > 10 \<and> momentum > 10 \<and> sentiment > 5"
    unfolding applied using that by simp
  have run: "confidence s = Some (mathRound (max 0 (min 100
          (50 + (orderFlow * 0.35 + momentum * 0.40 + sentiment * 0.25) * 1.67
           + (if orderFlow > 10 \<and> momentum > 10 \<and> sentiment > 5 then 8
              else if orderFlow < - 10 \<and> momentum < - 10 \<and> sentiment < - 5 then - 8
              else 0)))))"
    if g: "generateSignal symb tf aggr klines ob now = Inr s"
      and m: "calculateMomentumScore klines = Some momentum"
      and o: "calculateOrderFlowScore ob = orderFlow"
      and se: "calculateSentimentScore klines = sentiment"
      and t: "tradeable s"
    using generateSignal_fields [OF g] t by (simp add: m o se applied)
  have b: "orderFlow > 10 \<and> momentum > 10 \<and> sentiment > 5 \<longrightarrow>
        computeConfidence orderFlow momentum sentiment =
          max 0 (min 100
            (50 + (orderFlow * 0.35 + momentum * 0.40 + sentiment * 0.25) * 1.67 + 8))"
    by (intro impI, rule bull)
  have r: "generateSignal symb tf aggr klines ob now = Inr s
        \<and> calculateMomentumScore klines = Some momentum
        \<and> calculateOrderFlowScore ob = orderFlow
        \<and> calculateSentimentScore klines = sentiment
        \<and> tradeable s
        \<longrightarrow> confidence s = Some (mathRound (max 0 (min 100
          (50 + (orderFlow * 0.35 + momentum * 0.40 + sentiment * 0.25) * 1.67
           + (if orderFlow > 10 \<and> momentum > 10 \<and> sentiment > 5 then 8
              else if orderFlow < - 10 \<and> momentum < - 10 \<and> sentiment < - 5 then - 8
              else 0)))))"
    by (intro impI, elim conjE, rule run)
  show ?thesis
    using conjI [OF adj conjI [OF applied [of orderFlow momentum sentiment]
                      conjI [OF ten conjI [OF b r]]]]
    unfolding conj_assoc .
qed

theorem confluence_adjustment_iff_witness:
  "confluenceAdjustment 11 10.01 6 = 8 \<and> confluenceAdjustment 11 10 6 = 0
   \<and> computeConfidence 11 10 6 = 65.6145
   \<and> computeConfidence 11 10.01 6 = 73.62118
   \<and> (\<exists>s. generateSignal ''BTC'' ''15m'' ''aggressive''
          (map (\<lambda>c. \<lparr>high = c, low = c, close = c, volume = 1\<rparr>)
             [114, 113, 112, 111, 110, 109, 108, 107, 106, 105, 104, 103, 102, 101, 100,
              105, 110, 115, 120, 125])
          \<lparr>bidVolume = 20, askVolume = 0, imbalance = 1\<rparr> 0 = Inr s
        \<and> confidence s = Some 99)"
proof -
  have r: "mathRound (max 0 (min 100 (50 + (30 * 0.35 + 30 * 0.40 + 8 * 0.25) * 1.67 + 8))) = 99"
    by (simp add: mathRound_def)
  from confluence_adjustment_iff
    [of 30 30 8 "''BTC''" "''15m''" "''aggressive''"
        "map (\<lambda>c. \<lparr>high = c, low = c, close = c, volume = 1\<rparr>)
          [114, 113, 112, 111, 110, 109, 108, 107, 106, 105, 104, 103, 102, 101, 100,
           105, 110, 115, 120, 125]"
        "\<lparr>bidVolume = 20, askVolume = 0, imbalance = 1\<rparr>" 0]
    generateSignal_bullish_example momentum_bullish_example sentiment_bullish_example
    orderFlow_bullish_example r
  have run: "\<exists>s. generateSignal ''BTC'' ''15m'' ''aggressive''
          (map (\<lambda>c. \<lparr>high = c, low = c, close = c, volume = 1\<rparr>)
             [114, 113, 112, 111, 110, 109, 108, 107, 106, 105, 104, 103, 102, 101, 100,
              105, 110, 115, 120, 125])
          \<lparr>bidVolume = 20, askVolume = 0, imbalance = 1\<rparr> 0 = Inr s
        \<and> confidence s = Some 99"
    by simp
  from confluence_adjustment_iff [of 11 "10.01" 6] confluence_adjustment_iff [of 11 10 6]
  have "confluenceAdjustment 11 10.01 6 = 8 \<and> confluenceAdjustment 11 10 6 = 0
   \<and> computeConfidence 11 10 6 = 65.6145
   \<and> computeConfidence 11 10.01 6 = 73.62118"
    by simp
  with run show ?thesis by blast
qed

section \<open>Indicators and scores\<close>

text \<open>
  Claim C8. Short history gives the neutral defaults, as values and not as errors:
  \<^verbatim>\<open>calculateRSI\<close> returns \<open>50\<close> for fewer than \<open>period + 1\<close> closes (fewer than
  \<open>15\<close> with the default period), \<^verbatim>\<open>calculateMomentumScore\<close> returns \<open>0\<close> for fewer
  than \<open>20\<close> candles and \<^verbatim>\<open>calculateSentimentScore\<close> returns \<open>0\<close> for fewer than
  \<open>10\<close>.
\<close>

theorem short_history_defaults:
  "(length closes < period + 1 \<longrightarrow> calculateRSI closes period = Some 50)
   \<and> (length closes < 15 \<longrightarrow> calculateRSI closes 14 = Some 50)
   \<and> (length klines < 20 \<longrightarrow> calculateMomentumScore klines = Some 0)
   \<and> (length klines < 10 \<longrightarrow> calculateSentimentScore klines = 0)"
  by (simp add: calculateRSI_def calculateMomentumScore_def calculateSentimentScore_def)

theorem short_history_defaults_witness:
  "calculateRSI [100, 101, 102] 14 = Some 50
   \<and> calculateMomentumScore (replicate 19 \<lparr>high = 2, low = 1, close = 1, volume = 1\<rparr>) = Some 0
   \<and> calculateSentimentScore (replicate 9 \<lparr>high = 2, low = 1, close = 1, volume = 1\<rparr>) = 0"
  using short_history_defaults
    [of "[100, 101, 102]" 14 "replicate 19 \<lparr>high = 2, low = 1, close = 1, volume = 1\<rparr>"]
    short_history_defaults
    [of "[]" 14 "replicate 9 \<lparr>high = 2, low = 1, close = 1, volume = 1\<rparr>"]
  by simp

lemma latestSignal_None_iff:
  "latestSignal store m tf = None \<longleftrightarrow>
     (\<forall>s \<in> set store. \<not> (market_id s = m \<and> timeframe s = tf))"
proof -
  let ?P = "\<lambda>s. market_id s = m \<and> timeframe s = tf"
  have "latestSignal store m tf = None \<longleftrightarrow> filter ?P store = []"
    by (simp add: latestSignal_def split: list.splits)
  then show ?thesis
    by (simp add: filter_empty_conv)
qed

lemma foldl_newest:
  "foldl (\<lambda>best s. if generated_at s > generated_at best then s else best) r rs \<in> set (r # rs)
   \<and> (\<forall>s \<in> set (r # rs).
         generated_at s \<le> generated_at
           (foldl (\<lambda>best s. if generated_at s > generated_at best then s else best) r rs))"
proof (induction rs arbitrary: r)
  case Nil
  show ?case by simp
next
  case (Cons x xs)
  show ?case
    using Cons.IH [of "if generated_at x > generated_at r then x else r"]
    by (auto split: if_splits)
qed

lemma latestSignal_Some:
  assumes "latestSignal store m tf = Some d"
  shows "d \<in> set store \<and> market_id d = m \<and> timeframe d = tf
     \<and> (\<forall>s \<in> set store. market_id s = m \<and> timeframe s = tf \<longrightarrow>
           generated_at s \<le> generated_at d)"
proof -
  let ?P = "\<lambda>s. market_id s = m \<and> timeframe s = tf"
  from assms obtain r rs where f: "filter ?P store = r # rs"
    and d: "d = foldl (\<lambda>best s. if generated_at s > generated_at best then s else best) r rs"
    by (auto simp add: latestSignal_def split: list.splits)
  from foldl_newest [of r rs] d
  have "d \<in> set (filter ?P store)"
    and "\<forall>s \<in> set (filter ?P store). generated_at s \<le> generated_at d"
    unfolding f by simp_all
  then show ?thesis by auto
qed

section \<open>Hold period\<close>

text \<open>
  Claim C5. The hold-period check of a key (\<^verbatim>\<open>needsRegeneration\<close> in the scheduler,
  \<^verbatim>\<open>shouldGenerateSignal\<close> in the script) returns true when the store holds no
  signal of the key. When it holds one, the query returns a stored signal of the key
  with the newest \<^verbatim>\<open>generated_at\<close>, and with \<open>T\<close> its \<^verbatim>\<open>hold_until\<close> the check
  returns false at every time \<open>\<le> T\<close> and true at every time \<open>> T\<close>.
\<close>

theorem hold_period_gate:
  "((\<forall>s \<in> set store. \<not> (market_id s = m \<and> timeframe s = tf)) \<longrightarrow>
       needsRegeneration store m tf now \<and> shouldGenerateSignal store m tf now)
   \<and> (\<forall>d. latestSignal store m tf = Some d \<longrightarrow>
         d \<in> set store \<and> market_id d = m \<and> timeframe d = tf
         \<and> (\<forall>s \<in> set store. market_id s = m \<and> timeframe s = tf \<longrightarrow>
               generated_at s \<le> generated_at d)
         \<and> (now \<le> hold_until d \<longrightarrow>
               \<not> needsRegeneration store m tf now \<and> \<not> shouldGenerateSignal store m tf now)
         \<and> (now > hold_until d \<longrightarrow>
               needsRegeneration store m tf now \<and> shouldGenerateSignal store m tf now))
   \<and> ((\<exists>s \<in> set store. market_id s = m \<and> timeframe s = tf) \<longrightarrow>
         (\<exists>d. latestSignal store m tf = Some d))"
proof -
  have cold: "needsRegeneration store m tf now \<and> shouldGenerateSignal store m tf now"
    if "\<forall>s \<in> set store. \<not> (market_id s = m \<and> timeframe s = tf)"
    using that latestSignal_None_iff [of store m tf]
    by (simp add: needsRegeneration_def shouldGenerateSignal_def)
  have held: "d \<in> set store \<and> market_id d = m \<and> timeframe d = tf
         \<and> (\<forall>s \<in> set store. market_id s = m \<and> timeframe s = tf \<longrightarrow>
               generated_at s \<le> generated_at d)
         \<and> (now \<le> hold_until d \<longrightarrow>
               \<not> needsRegeneration store m tf now \<and> \<not> shouldGenerateSignal store m tf now)
         \<and> (now > hold_until d \<longrightarrow>
               needsRegeneration store m tf now \<and> shouldGenerateSignal store m tf now)"
    if l: "latestSignal store m tf = Some d" for d
    using latestSignal_Some [OF l] l
    by (simp add: needsRegeneration_def shouldGenerateSignal_def Let_def)
  have ex: "\<exists>d. latestSignal store m tf = Some d"
    if "\<exists>s \<in> set store. market_id s = m \<and> timeframe s = tf"
    using that latestSignal_None_iff [of store m tf] by (cases "latestSignal store m tf") auto
  show ?thesis using cold held ex by blast
qed

theorem hold_period_gate_witness:
  "(let s0 = \<lparr>market_id = ''btc-usd'', symbol = ''BTC/USD'', timeframe = ''15m'',
          direction = UP, confidence = Some 68, tradeable = True,
          order_flow_score = 30, momentum_score = Some 0, sentiment_score = 0,
          gates = \<lparr>volatility_pass = False, liquidity_pass = True, conflict_pass = True,
                    time_pass = True, correlation_pass = True\<rparr>,
          generated_at = 0, hold_until = 300000, expires_at = None\<rparr>
    in needsRegeneration [] ''btc-usd'' ''15m'' 0
       \<and> shouldGenerateSignal [] ''btc-usd'' ''15m'' 0
       \<and> latestSignal [s0] ''btc-usd'' ''15m'' = Some s0
       \<and> \<not> needsRegeneration [s0] ''btc-usd'' ''15m'' 300000
       \<and> \<not> shouldGenerateSignal [s0] ''btc-usd'' ''15m'' 300000
       \<and> needsRegeneration [s0] ''btc-usd'' ''15m'' 300001
       \<and> shouldGenerateSignal [s0] ''btc-usd'' ''15m'' 300001)"
proof -
  define s0 where "s0 = \<lparr>market_id = ''btc-usd'', symbol = ''BTC/USD'', timeframe = ''15m'',
          direction = UP, confidence = Some 68, tradeable = True,
          order_flow_score = 30, momentum_score = Some 0, sentiment_score = 0,
          gates = \<lparr>volatility_pass = False, liquidity_pass = True, conflict_pass = True,
                    time_pass = True, correlation_pass = True\<rparr>,
          generated_at = 0, hold_until = 300000, expires_at = None\<rparr>"
  have l: "latestSignal [s0] ''btc-usd'' ''15m'' = Some s0"
    by (simp add: latestSignal_def s0_def)
  have h: "hold_until s0 = 300000"
    by (simp add: s0_def)
  have "needsRegeneration [] ''btc-usd'' ''15m'' 0
       \<and> shouldGenerateSignal [] ''btc-usd'' ''15m'' 0"
    using hold_period_gate [of "[]" "''btc-usd''" "''15m''" 0] by simp
  moreover have "\<not> needsRegeneration [s0] ''btc-usd'' ''15m'' 300000
       \<and> \<not> shouldGenerateSignal [s0] ''btc-usd'' ''15m'' 300000"
    using hold_period_gate [of "[s0]" "''btc-usd''" "''15m''" 300000] l h by simp
  moreover have "needsRegeneration [s0] ''btc-usd'' ''15m'' 300001
       \<and> shouldGenerateSignal [s0] ''btc-usd'' ''15m'' 300001"
    using hold_period_gate [of "[s0]" "''btc-usd''" "''15m''" 300001] l h by simp
  ultimately show ?thesis
    using l unfolding Let_def s0_def by simp
qed

section \<open>Flat series and sentiment values\<close>

lemma map_constant:
  "\<forall>x \<in> set xs. f x = c \<Longrightarrow> map f xs = replicate (length xs) c"
  by (induction xs) simp_all

lemma fold_rsiStep_constant:
  "\<forall>i \<in> set is. i < n \<Longrightarrow> fold (rsiStep (replicate n c)) is acc = acc"
proof (induction "is" arbitrary: acc)
  case Nil
  show ?case by simp
next
  case (Cons i "is")
  from Cons.prems have "i < n" and "i - 1 < n"
    by auto
  then have "rsiStep (replicate n c) i acc = acc"
    by (simp add: rsiStep_def)
  with Cons show ?case by simp
qed

lemma calculateRSI_constant:
  assumes "period < n" and "0 < period"
  shows "calculateRSI (replicate n c) period = Some 100"
proof -
  have "fold (rsiStep (replicate n c)) [1 ..< period + 1] (0, 0) = (0, 0)"
    using assms by (intro fold_rsiStep_constant) auto
  then show ?thesis
    using assms by (simp add: calculateRSI_def Let_def)
qed

lemma sliceLast_replicate: "k \<le> n \<Longrightarrow> sliceLast k (replicate n c) = replicate k c"
  by (simp add: sliceLast_def)

text \<open>
  Claim C9. For every list of at least \<open>20\<close> candles whose closes all equal one
  positive value, \<^verbatim>\<open>calculateRSI\<close> returns \<open>100\<close> (every delta is \<open>0\<close>, so the
  average loss is \<open>0\<close>: the branch fires on a window without moves) and
  \<^verbatim>\<open>calculateMomentumScore\<close> returns \<open>-30\<close>: the overbought branch subtracts
  \<open>45\<close>, the MACD and trend terms are \<open>0\<close>, and \<open>-45\<close> is clamped.
\<close>

theorem flat_series_momentum:
  assumes "length klines \<ge> 20" and "\<forall>k \<in> set klines. close k = c" and "c > 0"
  shows "calculateRSI (map close klines) 14 = Some 100
     \<and> calculateMomentumScore klines = Some (- 30)"
proof -
  let ?n = "length klines"
  have closes: "map close klines = replicate ?n c"
    using assms(2) by (rule map_constant)
  have rsi: "calculateRSI (replicate ?n c) 14 = Some 100"
    using assms(1) by (intro calculateRSI_constant) auto
  have recent: "sliceLast 5 (replicate ?n c) = replicate 5 c"
    using assms(1) by (intro sliceLast_replicate) auto
  have r0: "replicate 5 c ! 0 = c" and r4: "replicate 5 c ! 4 = c"
    by simp_all
  have "calculateMomentumScore klines = Some (- 30)"
    using assms(1) assms(3)
    by (simp add: calculateMomentumScore_def Let_def closes rsi recent r0 r4
          calculateMACD_histogram)
  then show ?thesis using rsi closes by simp
qed

theorem flat_series_momentum_witness:
  "calculateMomentumScore (replicate 20 \<lparr>high = 101, low = 99, close = 100, volume = 3\<rparr>)
     = Some (- 30)
   \<and> calculateRSI (map close (replicate 20 \<lparr>high = 101, low = 99, close = 100, volume = 3\<rparr>)) 14
     = Some 100"
  using flat_series_momentum
    [of "replicate 20 \<lparr>high = 101, low = 99, close = 100, volume = 3\<rparr>" 100]
  by simp

lemma sliceLast_nth:
  "k \<le> length xs \<Longrightarrow> i < k \<Longrightarrow> sliceLast k xs ! i = xs ! (length xs - k + i)"
  by (simp add: sliceLast_def)

lemma sentiment_example_15:
  "calculateSentimentScore
     (replicate 9 \<lparr>high = 2, low = 1, close = 100, volume = 1\<rparr>
        @ [\<lparr>high = 2, low = 1, close = 101, volume = 10\<rparr>]) = 15"
  by (simp add: calculateSentimentScore_def sliceLast_def Let_def nth_append eval_nat_numeral)

lemma sentiment_example_m15:
  "calculateSentimentScore
     (replicate 9 \<lparr>high = 2, low = 1, close = 100, volume = 1\<rparr>
        @ [\<lparr>high = 2, low = 1, close = 100, volume = 10\<rparr>]) = - 15"
  by (simp add: calculateSentimentScore_def sliceLast_def Let_def nth_append eval_nat_numeral)

lemma sentiment_example_8:
  "calculateSentimentScore
     (replicate 9 \<lparr>high = 2, low = 1, close = 100, volume = 1\<rparr>
        @ [\<lparr>high = 2, low = 1, close = 101, volume = 1\<rparr>]) = 8"
  by (simp add: calculateSentimentScore_def sliceLast_def Let_def nth_append eval_nat_numeral)

lemma sentiment_example_m8:
  "calculateSentimentScore
     (replicate 9 \<lparr>high = 2, low = 1, close = 100, volume = 1\<rparr>
        @ [\<lparr>high = 2, low = 1, close = 100, volume = 1\<rparr>]) = - 8"
  by (simp add: calculateSentimentScore_def sliceLast_def Let_def nth_append eval_nat_numeral)

text \<open>
  Claim C10. For every list of at least \<open>10\<close> candles
  \<^verbatim>\<open>calculateSentimentScore\<close> returns one of \<open>-15\<close>, \<open>-8\<close>, \<open>8\<close>, \<open>15\<close> and
  never \<open>0\<close>; it is positive exactly when the last close is strictly greater than
  the first close of the ten-candle window, so an unchanged price gives \<open>-8\<close> or
  \<open>-15\<close>. Each of the four values is returned for some list with positive
  volumes. (The bound needs no assumption on the volumes.)
\<close>

theorem sentiment_score_values:
  "(length klines \<ge> 10 \<longrightarrow>
      calculateSentimentScore klines \<in> {- 15, - 8, 8, 15}
      \<and> calculateSentimentScore klines \<noteq> 0
      \<and> (calculateSentimentScore klines > 0 \<longleftrightarrow>
           close (klines ! (length klines - 1)) > close (klines ! (length klines - 10)))
      \<and> (close (klines ! (length klines - 1)) = close (klines ! (length klines - 10)) \<longrightarrow>
           calculateSentimentScore klines \<in> {- 8, - 15}))
   \<and> (\<forall>v \<in> {- 15, - 8, 8, 15}.
         \<exists>ks. length ks \<ge> 10 \<and> (\<forall>k \<in> set ks. volume k > 0)
            \<and> calculateSentimentScore ks = v)"
proof -
  have range: "calculateSentimentScore klines \<in> {- 15, - 8, 8, 15}
      \<and> calculateSentimentScore klines \<noteq> 0
      \<and> (calculateSentimentScore klines > 0 \<longleftrightarrow>
           close (klines ! (length klines - 1)) > close (klines ! (length klines - 10)))
      \<and> (close (klines ! (length klines - 1)) = close (klines ! (length klines - 10)) \<longrightarrow>
           calculateSentimentScore klines \<in> {- 8, - 15})"
    if len: "length klines \<ge> 10"
  proof -
    have n9: "sliceLast 10 klines ! 9 = klines ! (length klines - 1)"
      using len by (simp add: sliceLast_nth)
    have n0: "sliceLast 10 klines ! 0 = klines ! (length klines - 10)"
      using len by (simp add: sliceLast_nth)
    show ?thesis
      using len by (simp add: calculateSentimentScore_def Let_def n9 n0)
  qed
  have attained: "\<exists>ks. length ks \<ge> 10 \<and> (\<forall>k \<in> set ks. volume k > 0)
            \<and> calculateSentimentScore ks = v"
    if "ks0 = replicate 9 \<lparr>high = 2, low = 1, close = 100, volume = 1\<rparr> @ [k0]"
      and "volume k0 > 0" and "calculateSentimentScore ks0 = v" for ks0 k0 v
  proof -
    have "length ks0 \<ge> 10" and "\<forall>k \<in> set ks0. volume k > 0"
      using that by simp_all
    with that(3) show ?thesis by blast
  qed
  have "\<forall>v \<in> {- 15, - 8, 8, 15}.
         \<exists>ks. length ks \<ge> 10 \<and> (\<forall>k \<in> set ks. volume k > 0)
            \<and> calculateSentimentScore ks = v"
    using attained [OF refl _ sentiment_example_15] attained [OF refl _ sentiment_example_m15]
      attained [OF refl _ sentiment_example_8] attained [OF refl _ sentiment_example_m8]
    by simp
  with range show ?thesis by blast
qed

theorem sentiment_score_values_witness:
  "calculateSentimentScore (replicate 10 \<lparr>high = 2, low = 1, close = 100, volume = 1\<rparr>)
     \<in> {- 8, - 15}
   \<and> calculateSentimentScore (replicate 10 \<lparr>high = 2, low = 1, close = 100, volume = 1\<rparr>)
     \<noteq> 0"
  using sentiment_score_values
    [of "replicate 10 \<lparr>high = 2, low = 1, close = 100, volume = 1\<rparr>"]
  by simp

section \<open>Double arithmetic: rounding\<close>

lemma two_powi_nonneg: "0 \<le> k \<Longrightarrow> (2::real) powi k = 2 ^ nat k"
  by (simp add: power_int_def)

lemma two_powi_neg: "0 \<le> k \<Longrightarrow> (2::real) powi (- k) = 1 / 2 ^ nat k"
  by (simp add: power_int_def field_simps)

lemma two_powi_mono: "a \<le> b \<Longrightarrow> (2::real) powi a \<le> 2 powi b"
  by (rule power_int_increasing) simp_all

lemma two_powi_less_D: "(2::real) powi a < 2 powi b \<Longrightarrow> a < b"
  using two_powi_mono [of b a] by (cases "a < b") auto

lemma int_less_two_power_real:
  "(n::int) < 2 ^ k \<Longrightarrow> real_of_int n + 1 \<le> 2 ^ k"
proof -
  assume "n < 2 ^ k"
  then have "n + 1 \<le> 2 ^ k" by simp
  then have "real_of_int (n + 1) \<le> real_of_int (2 ^ k)"
    by (simp only: of_int_le_iff)
  then show ?thesis by simp
qed

lemma two_power_le_int_real:
  "2 ^ k \<le> (n::int) \<Longrightarrow> (2::real) ^ k \<le> real_of_int n"
proof -
  assume "2 ^ k \<le> n"
  then have "real_of_int (2 ^ k) \<le> real_of_int n"
    by (simp only: of_int_le_iff)
  then show ?thesis by simp
qed

lemma binaryExponent_ge_one:
  assumes "1 \<le> x"
  shows "2 powi binaryExponent x \<le> x" and "x < 2 powi (binaryExponent x + 1)"
proof -
  let ?n = "\<lfloor>x\<rfloor>"
  from assms have n: "0 < ?n" by simp
  then have b: "1 \<le> bitlen ?n"
    by (simp add: bitlen_alt_def)
  have e: "binaryExponent x = bitlen ?n - 1"
    using assms by (simp add: binaryExponent_def)
  from bitlen_bounds [OF n]
  have lo: "2 ^ nat (bitlen ?n - 1) \<le> ?n" and hi: "?n < 2 ^ nat (bitlen ?n)"
    by simp_all
  have "(2::real) ^ nat (bitlen ?n - 1) \<le> real_of_int ?n"
    using lo by (rule two_power_le_int_real)
  also have "\<dots> \<le> x" by simp
  finally show "2 powi binaryExponent x \<le> x"
    using b by (simp add: e two_powi_nonneg)
  have "x < real_of_int ?n + 1" by linarith
  also have "\<dots> \<le> 2 ^ nat (bitlen ?n)"
    using hi by (rule int_less_two_power_real)
  finally show "x < 2 powi (binaryExponent x + 1)"
    using b by (simp add: e two_powi_nonneg)
qed

lemma binaryExponent_less_one:
  assumes "0 < x" and "x < 1"
  shows "2 powi binaryExponent x \<le> x" and "x < 2 powi (binaryExponent x + 1)"
proof -
  let ?y = "1 / x"
  let ?m = "\<lceil>?y\<rceil>"
  let ?k = "bitlen (?m - 1)"
  from assms have y: "1 < ?y" by simp
  then have m: "0 < ?m - 1" by linarith
  then have k: "1 \<le> ?k"
    by (simp add: bitlen_alt_def)
  have e: "binaryExponent x = - ?k"
    using assms by (simp add: binaryExponent_def)
  from bitlen_bounds [OF m]
  have lo: "2 ^ nat (?k - 1) \<le> ?m - 1" and hi: "?m - 1 < 2 ^ nat ?k"
    by simp_all
  have "?y \<le> real_of_int ?m" by simp
  also have "\<dots> = real_of_int (?m - 1) + 1" by simp
  also have "\<dots> \<le> 2 ^ nat ?k"
    using hi by (rule int_less_two_power_real)
  finally have "?y \<le> 2 ^ nat ?k" .
  then have "1 / 2 ^ nat ?k \<le> x"
    using assms(1) by (simp add: field_simps)
  then show "2 powi binaryExponent x \<le> x"
    using k by (simp add: e two_powi_neg)
  have "(2::real) ^ nat (?k - 1) \<le> real_of_int (?m - 1)"
    using lo by (rule two_power_le_int_real)
  also have "\<dots> < ?y" by linarith
  finally have "(2::real) ^ nat (?k - 1) < ?y" .
  then have "x < 1 / 2 ^ nat (?k - 1)"
    using assms(1) by (simp add: field_simps)
  moreover have "(2::real) powi (- ?k + 1) = 1 / 2 ^ nat (?k - 1)"
    using k two_powi_neg [of "?k - 1"] by simp
  ultimately show "x < 2 powi (binaryExponent x + 1)"
    by (simp add: e)
qed

lemma binaryExponent_bounds:
  assumes "0 < x"
  shows "2 powi binaryExponent x \<le> x" and "x < 2 powi (binaryExponent x + 1)"
  using assms binaryExponent_ge_one [of x] binaryExponent_less_one [of x]
  by (cases "1 \<le> x"; simp)+

lemma binaryExponent_unique:
  assumes "2 powi e \<le> x" and "x < 2 powi (e + 1)"
  shows "binaryExponent x = e"
proof -
  have "(0::real) < 2 powi e" by simp
  with assms(1) have pos: "0 < x" by linarith
  note b = binaryExponent_bounds [OF pos]
  have "(2::real) powi e < 2 powi (binaryExponent x + 1)"
    using assms(1) b(2) by linarith
  then have "e < binaryExponent x + 1"
    by (rule two_powi_less_D)
  moreover have "(2::real) powi binaryExponent x < 2 powi (e + 1)"
    using assms(2) b(1) by linarith
  then have "binaryExponent x < e + 1"
    by (rule two_powi_less_D)
  ultimately show ?thesis by simp
qed

lemma roundHalfEven_of_int [simp]: "roundHalfEven (of_int n) = n"
  by (simp add: roundHalfEven_def)

lemma roundHalfEven_bounds:
  shows "\<lfloor>x\<rfloor> \<le> roundHalfEven x" and "roundHalfEven x \<le> \<lfloor>x\<rfloor> + 1"
  by (simp_all add: roundHalfEven_def Let_def)

lemma roundHalfEven_mono:
  assumes "x \<le> y"
  shows "roundHalfEven x \<le> roundHalfEven y"
proof (cases "\<lfloor>x\<rfloor> = \<lfloor>y\<rfloor>")
  case True
  then show ?thesis
    using assms by (auto simp add: roundHalfEven_def Let_def)
next
  case False
  with assms have "\<lfloor>x\<rfloor> + 1 \<le> \<lfloor>y\<rfloor>"
    using floor_mono [OF assms] by linarith
  with roundHalfEven_bounds(2) [of x] roundHalfEven_bounds(1) [of y]
  show ?thesis by linarith
qed

lemma roundHalfEven_ge_int: "real_of_int n \<le> x \<Longrightarrow> n \<le> roundHalfEven x"
  using roundHalfEven_mono [of "of_int n" x] by simp

lemma roundHalfEven_le_int: "x \<le> real_of_int n \<Longrightarrow> roundHalfEven x \<le> n"
  using roundHalfEven_mono [of x "of_int n"] by simp

lemma ulpOf_pos: "0 < ulpOf x"
  by (simp add: ulpOf_def)

lemma roundMagnitude_ulp: "roundMagnitude x = of_int (roundHalfEven (x / ulpOf x)) * ulpOf x"
  by (simp add: roundMagnitude_def ulpOf_def Let_def)

lemma roundMagnitude_zero [simp]: "roundMagnitude 0 = 0"
  using roundHalfEven_of_int [of 0] by (simp add: roundMagnitude_ulp)

lemma roundMagnitude_nonneg: "0 \<le> x \<Longrightarrow> 0 \<le> roundMagnitude x"
proof -
  assume "0 \<le> x"
  then have "real_of_int 0 \<le> x / ulpOf x"
    using ulpOf_pos [of x] by simp
  then have "0 \<le> roundHalfEven (x / ulpOf x)"
    by (rule roundHalfEven_ge_int)
  then show ?thesis
    using ulpOf_pos [of x] by (simp add: roundMagnitude_ulp)
qed

text \<open>With the exponent clamped at \<open>-1022\<close>: the upper bound stays, the lower bound holds for normal numbers.\<close>

lemma clamped_exponent:
  assumes "0 < x"
  shows "x < 2 powi (max (binaryExponent x) (- 1022) + 1)"
    and "max (binaryExponent x) (- 1022) = - 1022 \<or> 2 powi (max (binaryExponent x) (- 1022)) \<le> x"
proof -
  note b = binaryExponent_bounds [OF assms]
  have "(2::real) powi (binaryExponent x + 1) \<le> 2 powi (max (binaryExponent x) (- 1022) + 1)"
    by (rule two_powi_mono) simp
  with b(2) show "x < 2 powi (max (binaryExponent x) (- 1022) + 1)" by linarith
  show "max (binaryExponent x) (- 1022) = - 1022 \<or> 2 powi (max (binaryExponent x) (- 1022)) \<le> x"
    using b(1) by (auto simp add: max_def)
qed

lemma two_powi_split: "(2::real) powi (e + 1) = 2 ^ 53 * 2 powi (e - 52)"
proof -
  have "e + 1 = 53 + (e - 52)" by simp
  then have "(2::real) powi (e + 1) = 2 powi (53 + (e - 52))" by (rule arg_cong)
  also have "\<dots> = 2 powi 53 * 2 powi (e - 52)"
    by (rule power_int_add) simp
  finally show ?thesis by simp
qed

lemma two_powi_split52: "(2::real) powi e = 2 ^ 52 * 2 powi (e - 52)"
proof -
  have "e = 52 + (e - 52)" by simp
  then have "(2::real) powi e = 2 powi (52 + (e - 52))" by (rule arg_cong)
  also have "\<dots> = 2 powi 52 * 2 powi (e - 52)"
    by (rule power_int_add) simp
  finally show ?thesis by simp
qed

text \<open>The significand lies in \<open>[0, 2^53]\<close>; it is at least \<open>2^52\<close> for a normal number.\<close>

lemma significand_bounds:
  assumes "0 < x"
  shows "0 \<le> roundHalfEven (x / ulpOf x)"
    and "roundHalfEven (x / ulpOf x) \<le> 2 ^ 53"
    and "max (binaryExponent x) (- 1022) = - 1022 \<or> 2 ^ 52 \<le> roundHalfEven (x / ulpOf x)"
proof -
  define E where "E = max (binaryExponent x) (- 1022)"
  have u: "ulpOf x = 2 powi (E - 52)"
    by (simp add: ulpOf_def E_def)
  have upos: "0 < ulpOf x" by (rule ulpOf_pos)
  note c = clamped_exponent [OF assms, folded E_def]
  have "real_of_int 0 \<le> x / ulpOf x"
    using assms upos by simp
  then show "0 \<le> roundHalfEven (x / ulpOf x)"
    by (rule roundHalfEven_ge_int)
  have "x < 2 ^ 53 * ulpOf x"
    using c(1) unfolding u by (simp only: two_powi_split)
  then have "x / ulpOf x \<le> real_of_int (2 ^ 53)"
    using upos by (simp add: field_simps)
  then show "roundHalfEven (x / ulpOf x) \<le> 2 ^ 53"
    by (rule roundHalfEven_le_int)
  have "E = - 1022 \<or> 2 ^ 52 \<le> roundHalfEven (x / ulpOf x)"
  proof (cases "E = - 1022")
    case False
    with c(2) have "2 powi E \<le> x" by simp
    then have "2 ^ 52 * ulpOf x \<le> x"
      unfolding u by (subst (asm) two_powi_split52)
    then have "real_of_int (2 ^ 52) \<le> x / ulpOf x"
      using upos by (simp add: field_simps)
    then have "2 ^ 52 \<le> roundHalfEven (x / ulpOf x)"
      by (rule roundHalfEven_ge_int)
    then show ?thesis ..
  qed simp
  then show "max (binaryExponent x) (- 1022) = - 1022 \<or> 2 ^ 52 \<le> roundHalfEven (x / ulpOf x)"
    by (simp only: E_def)
qed

lemma binaryExponent_mono:
  assumes "0 < x" and "x \<le> y"
  shows "binaryExponent x \<le> binaryExponent y"
proof -
  from assms have y: "0 < y" by simp
  have "2 powi binaryExponent x \<le> x"
    using assms(1) by (rule binaryExponent_bounds)
  also note assms(2)
  also have "y < 2 powi (binaryExponent y + 1)"
    using y by (rule binaryExponent_bounds)
  finally have "binaryExponent x < binaryExponent y + 1"
    by (rule two_powi_less_D)
  then show ?thesis by simp
qed

lemma roundMagnitude_upper:
  assumes "0 < x"
  shows "roundMagnitude x \<le> 2 powi (max (binaryExponent x) (- 1022) + 1)"
proof -
  let ?E = "max (binaryExponent x) (- 1022)"
  have u: "ulpOf x = 2 powi (?E - 52)"
    by (simp add: ulpOf_def)
  from significand_bounds(2) [OF assms]
  have "real_of_int (roundHalfEven (x / ulpOf x)) \<le> real_of_int (2 ^ 53)"
    by (simp only: of_int_le_iff)
  then have "real_of_int (roundHalfEven (x / ulpOf x)) * ulpOf x \<le> 2 ^ 53 * ulpOf x"
    using ulpOf_pos [of x] by simp
  then show ?thesis
    unfolding roundMagnitude_ulp u by (simp only: two_powi_split)
qed

lemma roundMagnitude_lower:
  assumes "0 < x" and "max (binaryExponent x) (- 1022) \<noteq> - 1022"
  shows "2 powi (max (binaryExponent x) (- 1022)) \<le> roundMagnitude x"
proof -
  let ?E = "max (binaryExponent x) (- 1022)"
  have u: "ulpOf x = 2 powi (?E - 52)"
    by (simp add: ulpOf_def)
  from significand_bounds(3) [OF assms(1)] assms(2)
  have "2 ^ 52 \<le> roundHalfEven (x / ulpOf x)" by blast
  then have "real_of_int (2 ^ 52) \<le> real_of_int (roundHalfEven (x / ulpOf x))"
    by (simp only: of_int_le_iff)
  then have "2 ^ 52 * ulpOf x \<le> real_of_int (roundHalfEven (x / ulpOf x)) * ulpOf x"
    using ulpOf_pos [of x] by simp
  then show ?thesis
    unfolding roundMagnitude_ulp u by (subst two_powi_split52)
qed

lemma roundMagnitude_mono:
  assumes "0 \<le> x" and "x \<le> y"
  shows "roundMagnitude x \<le> roundMagnitude y"
proof (cases "x = 0")
  case True
  then show ?thesis
    using assms roundMagnitude_nonneg [of y] by simp
next
  case False
  with assms have x: "0 < x" and y: "0 < y" by simp_all
  let ?Ex = "max (binaryExponent x) (- 1022)"
  let ?Ey = "max (binaryExponent y) (- 1022)"
  have le: "?Ex \<le> ?Ey"
    using binaryExponent_mono [OF x assms(2)] by simp
  show ?thesis
  proof (cases "?Ex = ?Ey")
    case True
    then have u: "ulpOf x = ulpOf y"
      by (simp add: ulpOf_def)
    have "x / ulpOf y \<le> y / ulpOf y"
      using assms(2) ulpOf_pos [of y] by (simp add: divide_right_mono)
    then have "roundHalfEven (x / ulpOf y) \<le> roundHalfEven (y / ulpOf y)"
      by (rule roundHalfEven_mono)
    then have "real_of_int (roundHalfEven (x / ulpOf y)) \<le> real_of_int (roundHalfEven (y / ulpOf y))"
      by (simp only: of_int_le_iff)
    then show ?thesis
      using ulpOf_pos [of y] by (simp add: roundMagnitude_ulp u)
  next
    case False
    with le have lt: "?Ex + 1 \<le> ?Ey" and ny: "?Ey \<noteq> - 1022"
      by simp_all
    have "roundMagnitude x \<le> 2 powi (?Ex + 1)"
      using x by (rule roundMagnitude_upper)
    also have "\<dots> \<le> 2 powi ?Ey"
      using lt by (rule two_powi_mono)
    also have "\<dots> \<le> roundMagnitude y"
      using y ny by (rule roundMagnitude_lower)
    finally show ?thesis .
  qed
qed

text \<open>A number with a significand of at most 53 bits is its own rounding.\<close>

lemma roundMagnitude_representable:
  assumes n: "0 \<le> n" "n \<le> 2 ^ 53" and E: "- 1022 \<le> E" and norm: "E = - 1022 \<or> 2 ^ 52 \<le> n"
  shows "roundMagnitude (real_of_int n * 2 powi (E - 52)) = real_of_int n * 2 powi (E - 52)"
proof -
  let ?u = "(2::real) powi (E - 52)"
  let ?m = "real_of_int n * ?u"
  have upos: "0 < ?u" by simp
  consider "n = 0" | "n = 2 ^ 53" | "0 < n" "n < 2 ^ 52" | "2 ^ 52 \<le> n" "n < 2 ^ 53"
    using n by linarith
  then show ?thesis
  proof cases
    case 1
    then show ?thesis by simp
  next
    case 2
    define E' where "E' = E + 1"
    have E': "- 1022 \<le> E'" using E by (simp add: E'_def)
    have "real_of_int n * ?u = 2 ^ 53 * ?u"
      unfolding 2 by simp
    also have "\<dots> = 2 powi (E + 1)"
      by (simp only: two_powi_split)
    finally have m: "?m = 2 powi E'"
      by (simp only: E'_def)
    have "binaryExponent ?m = E'"
    proof (rule binaryExponent_unique)
      show "2 powi E' \<le> ?m" by (simp only: m order_refl)
      have "(2::real) powi E' < 2 powi (E' + 1)"
        by (rule power_int_strict_increasing) simp_all
      then show "?m < 2 powi (E' + 1)" by (simp only: m)
    qed
    then have u': "ulpOf ?m = 2 powi (E' - 52)"
      using E' by (simp add: ulpOf_def max_def)
    have m2: "?m = real_of_int (2 ^ 52) * 2 powi (E' - 52)"
      unfolding m using two_powi_split52 [of E'] by simp
    have q: "?m / 2 powi (E' - 52) = real_of_int (2 ^ 52)"
      by (subst m2) simp
    have "roundMagnitude ?m = real_of_int (2 ^ 52) * 2 powi (E' - 52)"
      unfolding roundMagnitude_ulp [of ?m] u' q roundHalfEven_of_int ..
    then show ?thesis
      using m2 by simp
  next
    case 3
    with norm have E1: "E = - 1022" by simp
    have mpos: "0 < ?m" using 3(1) upos by simp
    have "real_of_int n < real_of_int (2 ^ 52)"
      using 3(2) by (simp only: of_int_less_iff)
    then have "?m < 2 ^ 52 * ?u"
      using upos by simp
    then have lt: "?m < 2 powi E"
      by (simp only: two_powi_split52 [symmetric])
    have "2 powi binaryExponent ?m \<le> ?m"
      using mpos by (rule binaryExponent_bounds)
    with lt have "(2::real) powi binaryExponent ?m < 2 powi E" by linarith
    then have "binaryExponent ?m < E" by (rule two_powi_less_D)
    then have u': "ulpOf ?m = ?u"
      using E1 by (simp add: ulpOf_def max_def)
    have q: "?m / ?u = real_of_int n" by simp
    show ?thesis
      unfolding roundMagnitude_ulp [of ?m] u' q roundHalfEven_of_int ..
  next
    case 4
    have "real_of_int (2 ^ 52) \<le> real_of_int n"
      using 4(1) by (simp only: of_int_le_iff)
    then have "2 ^ 52 * ?u \<le> ?m"
      using upos by simp
    then have lo: "2 powi E \<le> ?m"
      by (simp only: two_powi_split52 [symmetric])
    have "real_of_int n < real_of_int (2 ^ 53)"
      using 4(2) by (simp only: of_int_less_iff)
    then have "?m < 2 ^ 53 * ?u"
      using upos by simp
    then have hi: "?m < 2 powi (E + 1)"
      by (simp only: two_powi_split [symmetric])
    have "binaryExponent ?m = E"
      using lo hi by (rule binaryExponent_unique)
    then have u': "ulpOf ?m = ?u"
      using E by (simp add: ulpOf_def max_def)
    have q: "?m / ?u = real_of_int n" by simp
    show ?thesis
      unfolding roundMagnitude_ulp [of ?m] u' q roundHalfEven_of_int ..
  qed
qed

lemma roundMagnitude_idem:
  assumes "0 \<le> x"
  shows "roundMagnitude (roundMagnitude x) = roundMagnitude x"
proof (cases "x = 0")
  case True
  then show ?thesis by simp
next
  case False
  with assms have x: "0 < x" by simp
  let ?E = "max (binaryExponent x) (- 1022)"
  have u: "ulpOf x = 2 powi (?E - 52)"
    by (simp add: ulpOf_def)
  note s = significand_bounds [OF x]
  show ?thesis
    unfolding roundMagnitude_ulp [of x] u
    using s(1) s(2) _ s(3) unfolding u
    by (rule roundMagnitude_representable) simp
qed

lemma roundDouble_zero [simp]: "roundDouble 0 = Fin 0"
  by (simp add: roundDouble_def)

lemma roundDouble_overflow:
  assumes "2 ^ 1024 \<le> x"
  shows "roundDouble x = PosInf" and "roundDouble (- x) = NegInf"
proof -
  have "(0::real) < 2 ^ 1024" by simp
  with assms have pos: "0 < x" by linarith
  have "(2::real) powi 1024 \<le> x"
    using assms by simp
  also have "x < 2 powi (binaryExponent x + 1)"
    using pos by (rule binaryExponent_bounds)
  finally have "1024 < binaryExponent x + 1"
    by (rule two_powi_less_D)
  then have e: "1024 \<le> max (binaryExponent x) (- 1022)"
    and ne: "max (binaryExponent x) (- 1022) \<noteq> - 1022"
    by simp_all
  have "(2::real) powi 1024 \<le> 2 powi max (binaryExponent x) (- 1022)"
    using e by (rule two_powi_mono)
  also have "\<dots> \<le> roundMagnitude x"
    using pos ne by (rule roundMagnitude_lower)
  finally have r: "2 ^ 1024 \<le> roundMagnitude x" by simp
  show "roundDouble x = PosInf"
    using r pos by (simp add: roundDouble_def)
  show "roundDouble (- x) = NegInf"
    using r pos by (simp add: roundDouble_def)
qed

lemma roundDouble_finite:
  assumes "\<bar>x\<bar> < 2 ^ 1023"
  shows "\<exists>k. roundDouble x = Fin k"
proof (cases "x = 0")
  case True
  then show ?thesis by simp
next
  case False
  then have pos: "0 < \<bar>x\<bar>" by simp
  have "2 powi binaryExponent \<bar>x\<bar> \<le> \<bar>x\<bar>"
    using pos by (rule binaryExponent_bounds)
  also have "\<bar>x\<bar> < 2 powi 1023"
    using assms by simp
  finally have "binaryExponent \<bar>x\<bar> < 1023"
    by (rule two_powi_less_D)
  then have "max (binaryExponent \<bar>x\<bar>) (- 1022) + 1 \<le> 1023"
    by simp
  then have "(2::real) powi (max (binaryExponent \<bar>x\<bar>) (- 1022) + 1) \<le> 2 powi 1023"
    by (rule two_powi_mono)
  with roundMagnitude_upper [OF pos]
  have "roundMagnitude \<bar>x\<bar> \<le> 2 ^ 1023"
    by simp
  also have "(2::real) ^ 1023 < 2 ^ 1024"
    by (rule power_strict_increasing) simp_all
  finally show ?thesis
    by (simp add: roundDouble_def Let_def)
qed

lemma roundDouble_idem:
  assumes "roundDouble x = Fin m"
  shows "roundDouble m = Fin m"
proof -
  let ?r = "roundMagnitude \<bar>x\<bar>"
  from assms have fin: "\<not> 2 ^ 1024 \<le> ?r" and m: "m = (if x < 0 then - ?r else ?r)"
    by (auto simp add: roundDouble_def Let_def split: if_splits)
  have r0: "0 \<le> ?r"
    by (rule roundMagnitude_nonneg) simp
  have idem: "roundMagnitude ?r = ?r"
    by (rule roundMagnitude_idem) simp
  have abs: "\<bar>m\<bar> = ?r"
    using r0 by (simp add: m)
  show ?thesis
  proof (cases "m < 0")
    case True
    then have "m = - ?r" using r0 m by (auto split: if_splits)
    then show ?thesis
      using True fin by (simp add: roundDouble_def Let_def idem)
  next
    case False
    then have "m = ?r" using r0 m by (auto split: if_splits)
    then show ?thesis
      using False fin by (simp add: roundDouble_def Let_def idem)
  qed
qed

lemma roundDouble_mono:
  assumes "x \<le> y"
  shows "jsLe (roundDouble x) (roundDouble y)"
proof -
  have nx: "0 \<le> roundMagnitude \<bar>x\<bar>" and ny: "0 \<le> roundMagnitude \<bar>y\<bar>"
    by (rule roundMagnitude_nonneg, simp)+
  consider "0 \<le> x" | "x < 0" "0 \<le> y" | "y < 0"
    by linarith
  then show ?thesis
  proof cases
    case 1
    with assms have "roundMagnitude \<bar>x\<bar> \<le> roundMagnitude \<bar>y\<bar>"
      by (intro roundMagnitude_mono) simp_all
    then show ?thesis
      using 1 assms by (simp add: roundDouble_def Let_def)
  next
    case 2
    then show ?thesis
      using nx ny by (simp add: roundDouble_def Let_def)
  next
    case 3
    with assms have "roundMagnitude \<bar>y\<bar> \<le> roundMagnitude \<bar>x\<bar>"
      by (intro roundMagnitude_mono) simp_all
    then show ?thesis
      using 3 assms by (simp add: roundDouble_def Let_def)
  qed
qed

lemma roundDouble_normal:
  assumes lo: "2 powi e \<le> x" and hi: "x < 2 powi (e + 1)" and e: "- 1022 \<le> e" "e \<le> 1022"
  shows "roundDouble x = Fin (real_of_int (roundHalfEven (x / 2 powi (e - 52))) * 2 powi (e - 52))"
proof -
  have "(0::real) < 2 powi e" by simp
  with lo have pos: "0 < x" by linarith
  have be: "binaryExponent x = e"
    using lo hi by (rule binaryExponent_unique)
  then have E: "max (binaryExponent x) (- 1022) = e"
    using e by simp
  have r: "roundMagnitude x = real_of_int (roundHalfEven (x / 2 powi (e - 52))) * 2 powi (e - 52)"
    by (simp add: roundMagnitude_def Let_def E)
  have "roundMagnitude x \<le> 2 powi (e + 1)"
    using roundMagnitude_upper [OF pos] by (simp only: E)
  also have "\<dots> \<le> 2 powi 1023"
    using e by (intro two_powi_mono) simp
  also have "\<dots> < 2 ^ 1024"
    by simp
  finally have "\<not> 2 ^ 1024 \<le> roundMagnitude x" by simp
  then show ?thesis
    using pos by (simp add: roundDouble_def Let_def r [symmetric])
qed

lemma double_0_8: "roundDouble 0.8 = Fin (3602879701896397 / 2 ^ 52)"
proof -
  have "roundDouble 0.8 =
      Fin (real_of_int (roundHalfEven (0.8 / 2 powi (- 1 - 52))) * 2 powi (- 1 - 52))"
    by (rule roundDouble_normal) simp_all
  also have "roundHalfEven (0.8 / 2 powi (- 1 - 52)) = 7205759403792794"
    by (simp add: roundHalfEven_def Let_def)
  finally show ?thesis by simp
qed

lemma double_0_8_minus_half:
  "jsSub (Fin (3602879701896397 / 2 ^ 52)) (Fin 0.5) = Fin (1351079888211149 / 2 ^ 52)"
proof -
  let ?x = "3602879701896397 / 2 ^ 52 + - 0.5 :: real"
  have "roundDouble ?x =
      Fin (real_of_int (roundHalfEven (?x / 2 powi (- 2 - 52))) * 2 powi (- 2 - 52))"
    by (rule roundDouble_normal) simp_all
  also have "roundHalfEven (?x / 2 powi (- 2 - 52)) = 5404319552844596"
    by (simp add: roundHalfEven_def Let_def)
  finally show ?thesis by (simp add: jsSub_def)
qed

lemma double_times_60:
  "jsMul (Fin (1351079888211149 / 2 ^ 52)) (Fin 60) = Fin (18 + 1 / 2 ^ 48)"
proof -
  let ?x = "1351079888211149 / 2 ^ 52 * 60 :: real"
  have "roundDouble ?x =
      Fin (real_of_int (roundHalfEven (?x / 2 powi (4 - 52))) * 2 powi (4 - 52))"
    by (rule roundDouble_normal) simp_all
  also have "roundHalfEven (?x / 2 powi (4 - 52)) = 5066549580791809"
    by (simp add: roundHalfEven_def Let_def)
  finally show ?thesis by simp
qed

section \<open>Order-flow score over doubles\<close>

lemma mathMax_mathMin_spec_clamp64:
  "mathMax (Fin (- 30)) (mathMin (Fin 30) s) = spec_clamp64 s (Fin (- 30)) (Fin 30)"
  by (cases s) (simp_all add: mathMax_def mathMin_def spec_clamp64_def)

lemma clamp64_range:
  "s \<noteq> NaN \<Longrightarrow>
     jsLe (Fin (- 30)) (mathMax (Fin (- 30)) (mathMin (Fin 30) s))
     \<and> jsLe (mathMax (Fin (- 30)) (mathMin (Fin 30) s)) (Fin 30)"
  by (cases s) (simp_all add: mathMax_def mathMin_def)

lemma clamp64_mono:
  "jsLe s t \<Longrightarrow>
     jsLe (mathMax (Fin (- 30)) (mathMin (Fin 30) s)) (mathMax (Fin (- 30)) (mathMin (Fin 30) t))"
  by (cases s; cases t) (simp_all add: mathMax_def mathMin_def)

lemma roundDouble_not_NaN [simp]: "roundDouble x \<noteq> NaN"
  by (simp add: roundDouble_def Let_def)

lemma jsMul_60_mono:
  "jsLe s t \<Longrightarrow> jsLe (jsMul s (Fin 60)) (jsMul t (Fin 60))"
proof (cases s; cases t)
  fix x y
  assume "jsLe s t" and "s = Fin x" and "t = Fin y"
  then show ?thesis
    using roundDouble_mono [of "x * 60" "y * 60"] by simp
next
  fix x
  assume "s = NegInf" and "t = Fin x"
  then show ?thesis
    by (cases "roundDouble (x * 60)") simp_all
next
  fix x
  assume "s = Fin x" and "t = PosInf"
  then show ?thesis
    by (cases "roundDouble (x * 60)") simp_all
qed simp_all

lemma jsSub_half_mono:
  "jsLe a b \<Longrightarrow> jsLe (jsSub a (Fin 0.5)) (jsSub b (Fin 0.5))"
proof (cases a; cases b)
  fix x y
  assume "jsLe a b" and "a = Fin x" and "b = Fin y"
  then show ?thesis
    using roundDouble_mono [of "x + - 0.5" "y + - 0.5"] by (simp add: jsSub_def)
next
  fix x
  assume "a = NegInf" and "b = Fin x"
  then show ?thesis
    by (cases "roundDouble (x + - 0.5)") (simp_all add: jsSub_def)
next
  fix x
  assume "a = Fin x" and "b = PosInf"
  then show ?thesis
    by (cases "roundDouble (x + - 0.5)") (simp_all add: jsSub_def)
qed (simp_all add: jsSub_def)

lemma orderFlow_raw_not_NaN:
  "a \<noteq> NaN \<Longrightarrow> jsMul (jsSub a (Fin 0.5)) (Fin 60) \<noteq> NaN"
proof (cases a)
  case (Fin x)
  then show ?thesis
    by (cases "roundDouble (x + - 0.5)") (simp_all add: jsSub_def)
qed (simp_all add: jsSub_def)

lemma orderFlow_raw_0_8:
  "jsMul (jsSub (roundDouble 0.8) (Fin 0.5)) (Fin 60) = Fin (18 + 1 / 2 ^ 48)"
  unfolding double_0_8 double_0_8_minus_half double_times_60 ..

lemma clamp64_18: "mathMax (Fin (- 30)) (mathMin (Fin 30) (Fin (18 + 1 / 2 ^ 48))) = Fin (18 + 1 / 2 ^ 48)"
  by (simp add: mathMax_def mathMin_def)

lemma orderFlow_score_0_8:
  assumes "imbalance64 ob = roundDouble 0.8"
  shows "calculateOrderFlowScore64 ob = Fin (18 + 1 / 2 ^ 48)"
  unfolding calculateOrderFlowScore64_def Let_def assms orderFlow_raw_0_8 clamp64_18 ..

lemma orderFlow_score_NaN:
  assumes "imbalance64 ob = NaN"
  shows "calculateOrderFlowScore64 ob = NaN"
  unfolding calculateOrderFlowScore64_def Let_def assms
  by (simp add: jsSub_def mathMax_def mathMin_def)

text \<open>
  Claim C7, as the code computes it. For every order book the order-flow score is
  \<open>clamp((imbalance - 0.5) * 60, -30, 30)\<close> with the difference and the product
  rounded to doubles. For every imbalance that is not \<^verbatim>\<open>NaN\<close> it lies in
  \<open>[-30, 30]\<close>, and it does not decrease when the imbalance grows. At the double
  \<^verbatim>\<open>0.8\<close> it is \<open>18 + 2^-48\<close>, printed \<^verbatim>\<open>18.000000000000004\<close>; for a \<^verbatim>\<open>NaN\<close>
  imbalance (an empty order book: \<^verbatim>\<open>0 / (0 + 0)\<close>) it is \<^verbatim>\<open>NaN\<close>.
\<close>

theorem order_flow_score_double:
  "calculateOrderFlowScore64 ob =
     spec_clamp64 (jsMul (jsSub (imbalance64 ob) (Fin 0.5)) (Fin 60)) (Fin (- 30)) (Fin 30)
   \<and> (imbalance64 ob \<noteq> NaN \<longrightarrow>
        jsLe (Fin (- 30)) (calculateOrderFlowScore64 ob)
        \<and> jsLe (calculateOrderFlowScore64 ob) (Fin 30))
   \<and> (jsLe (imbalance64 ob) (imbalance64 ob') \<longrightarrow>
        jsLe (calculateOrderFlowScore64 ob) (calculateOrderFlowScore64 ob'))
   \<and> (imbalance64 ob = roundDouble 0.8 \<longrightarrow>
        calculateOrderFlowScore64 ob = Fin (18 + 1 / 2 ^ 48))
   \<and> (imbalance64 ob = NaN \<longrightarrow> calculateOrderFlowScore64 ob = NaN)"
proof -
  let ?raw = "\<lambda>a. jsMul (jsSub a (Fin 0.5)) (Fin 60)"
  have eq: "calculateOrderFlowScore64 ob = spec_clamp64 (?raw (imbalance64 ob)) (Fin (- 30)) (Fin 30)"
    by (simp add: calculateOrderFlowScore64_def Let_def mathMax_mathMin_spec_clamp64)
  have rng: "imbalance64 ob \<noteq> NaN \<longrightarrow>
        jsLe (Fin (- 30)) (calculateOrderFlowScore64 ob)
        \<and> jsLe (calculateOrderFlowScore64 ob) (Fin 30)"
    using clamp64_range [OF orderFlow_raw_not_NaN, of "imbalance64 ob"]
    by (simp add: calculateOrderFlowScore64_def Let_def)
  have mono: "jsLe (imbalance64 ob) (imbalance64 ob') \<longrightarrow>
        jsLe (calculateOrderFlowScore64 ob) (calculateOrderFlowScore64 ob')"
    using clamp64_mono [OF jsMul_60_mono [OF jsSub_half_mono], of "imbalance64 ob" "imbalance64 ob'"]
    by (simp add: calculateOrderFlowScore64_def Let_def)
  have at08: "imbalance64 ob = roundDouble 0.8 \<longrightarrow>
        calculateOrderFlowScore64 ob = Fin (18 + 1 / 2 ^ 48)"
    by (intro impI) (rule orderFlow_score_0_8)
  have nan: "imbalance64 ob = NaN \<longrightarrow> calculateOrderFlowScore64 ob = NaN"
    by (intro impI) (rule orderFlow_score_NaN)
  show ?thesis
    using conjI [OF eq conjI [OF rng conjI [OF mono conjI [OF at08 nan]]]] .
qed

theorem order_flow_score_double_witness:
  "calculateOrderFlowScore64
     \<lparr>bidVolume64 = Fin 8, askVolume64 = Fin 2, imbalance64 = roundDouble 0.8\<rparr>
     = Fin (18 + 1 / 2 ^ 48)
   \<and> jsLe (Fin (- 30)) (calculateOrderFlowScore64
        \<lparr>bidVolume64 = Fin 8, askVolume64 = Fin 2, imbalance64 = roundDouble 0.8\<rparr>)
   \<and> jsLe (calculateOrderFlowScore64
        \<lparr>bidVolume64 = Fin 8, askVolume64 = Fin 2, imbalance64 = roundDouble 0.8\<rparr>)
        (calculateOrderFlowScore64
        \<lparr>bidVolume64 = Fin 9, askVolume64 = Fin 1, imbalance64 = Fin 1\<rparr>)
   \<and> calculateOrderFlowScore64
        \<lparr>bidVolume64 = Fin 0, askVolume64 = Fin 0, imbalance64 = NaN\<rparr> = NaN"
proof -
  let ?a = "\<lparr>bidVolume64 = Fin 8, askVolume64 = Fin 2, imbalance64 = roundDouble 0.8\<rparr>"
  let ?b = "\<lparr>bidVolume64 = Fin 9, askVolume64 = Fin 1, imbalance64 = Fin 1\<rparr>"
  let ?n = "\<lparr>bidVolume64 = Fin 0, askVolume64 = Fin 0, imbalance64 = NaN\<rparr>"
  have ia: "imbalance64 ?a = roundDouble 0.8" and ib: "imbalance64 ?b = Fin 1"
    and i0: "imbalance64 ?n = NaN"
    by simp_all
  have ne: "imbalance64 ?a \<noteq> NaN"
    unfolding ia by (rule roundDouble_not_NaN)
  have le: "jsLe (imbalance64 ?a) (imbalance64 ?b)"
    unfolding ia ib double_0_8 by simp
  note ta = order_flow_score_double [of ?a ?b]
  note tn = order_flow_score_double [of ?n]
  from ta ia have c1: "calculateOrderFlowScore64 ?a = Fin (18 + 1 / 2 ^ 48)" by blast
  from ta ne have c2: "jsLe (Fin (- 30)) (calculateOrderFlowScore64 ?a)" by blast
  from ta le have c3: "jsLe (calculateOrderFlowScore64 ?a) (calculateOrderFlowScore64 ?b)" by blast
  from tn i0 have c4: "calculateOrderFlowScore64 ?n = NaN" by blast
  from c1 c2 c3 c4 show ?thesis by blast
qed

text \<open>
  The order-flow score at the double \<^verbatim>\<open>0.8\<close> is not \<open>18\<close>, and at a \<^verbatim>\<open>NaN\<close>
  imbalance it is not at most \<open>30\<close>.
\<close>

theorem order_flow_score_counterexample:
  "calculateOrderFlowScore64
     \<lparr>bidVolume64 = Fin 8, askVolume64 = Fin 2, imbalance64 = roundDouble 0.8\<rparr> \<noteq> Fin 18
   \<and> \<not> jsLe (calculateOrderFlowScore64
        \<lparr>bidVolume64 = Fin 0, askVolume64 = Fin 0, imbalance64 = NaN\<rparr>) (Fin 30)"
proof -
  let ?a = "\<lparr>bidVolume64 = Fin 8, askVolume64 = Fin 2, imbalance64 = roundDouble 0.8\<rparr>"
  let ?n = "\<lparr>bidVolume64 = Fin 0, askVolume64 = Fin 0, imbalance64 = NaN\<rparr>"
  have "calculateOrderFlowScore64 ?a = Fin (18 + 1 / 2 ^ 48)"
    by (rule orderFlow_score_0_8) simp
  moreover have "calculateOrderFlowScore64 ?n = NaN"
    by (rule orderFlow_score_NaN) simp
  ultimately show ?thesis by simp
qed

section \<open>MACD over doubles\<close>

lemma fold_absorbing:
  "(\<And>x. f x z = z) \<Longrightarrow> fold f xs z = z"
  by (induction xs) simp_all

lemma jsAdd_NaN_right [simp]: "jsAdd a NaN = NaN"
  by (cases a) simp_all

lemma jsMul_NaN_right [simp]: "jsMul a NaN = NaN"
  by (cases a) simp_all

lemma jsAdd_Fin_double:
  assumes "jsAdd a b = Fin m"
  shows "roundDouble m = Fin m"
proof -
  from assms obtain x y where "a = Fin x" and "b = Fin y"
    by (cases a; cases b) simp_all
  with assms have "roundDouble (x + y) = Fin m" by simp
  then show ?thesis by (rule roundDouble_idem)
qed

lemma jsSub_Fin_double: "jsSub a b = Fin m \<Longrightarrow> roundDouble m = Fin m"
  unfolding jsSub_def by (rule jsAdd_Fin_double)

lemma multiplier_9: "\<exists>k. roundDouble (2 / (real 9 + 1)) = Fin k"
  by (rule roundDouble_finite) simp

text \<open>One EMA step on a finite double that is both the datum and the running value.\<close>

lemma ema_step_fixed:
  assumes "roundDouble m = Fin m"
  shows "jsAdd (jsMul (jsSub (Fin m) (Fin m)) (Fin k)) (Fin m) = Fin m"
  using assms by (simp add: jsSub_def)

lemma ema_step_nonfinite:
  assumes "\<forall>x. m \<noteq> Fin x"
  shows "jsAdd (jsMul (jsSub m m) mult) m = NaN"
  using assms by (cases m) (simp_all add: jsSub_def)

lemma calculateEMA64_constant_finite:
  assumes "roundDouble m = Fin m"
  shows "calculateEMA64 (replicate 9 (Fin m)) 9 = Fin m"
proof -
  from multiplier_9 obtain k where k: "roundDouble (2 / (real 9 + 1)) = Fin k" ..
  have r: "replicate 9 (Fin m) = Fin m # replicate 8 (Fin m)"
    by (simp add: numeral_eq_Suc)
  have "calculateEMA64 (replicate 9 (Fin m)) 9 =
      fold (\<lambda>x ema. jsAdd (jsMul (jsSub x ema) (Fin k)) ema) (replicate 8 (Fin m)) (Fin m)"
    unfolding r calculateEMA64_def list.case Let_def k ..
  also have "\<dots> = Fin m"
    by (rule fold_replicate_fixed) (rule ema_step_fixed [OF assms])
  finally show ?thesis .
qed

lemma calculateEMA64_constant_nonfinite:
  assumes "\<forall>x. m \<noteq> Fin x"
  shows "calculateEMA64 (replicate 9 m) 9 = NaN"
proof -
  let ?f = "\<lambda>x ema. jsAdd (jsMul (jsSub x ema) (roundDouble (2 / (real 9 + 1)))) ema"
  have r: "replicate 9 m = m # m # replicate 7 m"
    by (simp add: numeral_eq_Suc)
  have "calculateEMA64 (replicate 9 m) 9 = fold ?f (replicate 7 m) (?f m m)"
    unfolding r calculateEMA64_def list.case Let_def by simp
  also have "?f m m = NaN"
    by (rule ema_step_nonfinite [OF assms])
  also have "fold ?f (replicate 7 m) NaN = NaN"
    by (rule fold_absorbing) simp
  finally show ?thesis .
qed

lemma roundDouble_power_of_two:
  assumes "- 1022 \<le> e" and "e \<le> 1023"
  shows "roundDouble (2 powi e) = Fin (2 powi e)"
proof -
  have m: "(2::real) powi e = real_of_int (2 ^ 52) * 2 powi (e - 52)"
    using two_powi_split52 [of e] by simp
  have "roundMagnitude (real_of_int (2 ^ 52) * 2 powi (e - 52))
      = real_of_int (2 ^ 52) * 2 powi (e - 52)"
    using assms(1) by (intro roundMagnitude_representable) simp_all
  then have r: "roundMagnitude (2 powi e) = 2 powi e"
    by (simp only: m [symmetric])
  have "(2::real) powi e \<le> 2 powi 1023"
    using assms(2) by (rule two_powi_mono)
  also have "\<dots> < 2 ^ 1024" by simp
  finally have fin: "\<not> 2 ^ 1024 \<le> (2::real) powi e" by simp
  have a: "\<bar>(2::real) powi e\<bar> = 2 powi e" by simp
  have nn: "\<not> (2::real) powi e < 0" by (simp add: not_less)
  show ?thesis
    unfolding roundDouble_def Let_def a r using fin nn by (simp only: if_False)
qed

lemma multiplier_12: "roundDouble (2 / (real 12 + 1)) = Fin (1385722962267845 / 2 ^ 53)"
proof -
  let ?x = "2 / (real 12 + 1)"
  have "roundDouble ?x =
      Fin (real_of_int (roundHalfEven (?x / 2 powi (- 3 - 52))) * 2 powi (- 3 - 52))"
    by (rule roundDouble_normal) simp_all
  also have "roundHalfEven (?x / 2 powi (- 3 - 52)) = 5542891849071380"
    by (simp add: roundHalfEven_def Let_def)
  finally show ?thesis by simp
qed

lemma multiplier_26: "roundDouble (2 / (real 26 + 1)) = Fin (667199944795629 / 2 ^ 53)"
proof -
  let ?x = "2 / (real 26 + 1)"
  have "roundDouble ?x =
      Fin (real_of_int (roundHalfEven (?x / 2 powi (- 4 - 52))) * 2 powi (- 4 - 52))"
    by (rule roundDouble_normal) simp_all
  also have "roundHalfEven (?x / 2 powi (- 4 - 52)) = 5337599558365032"
    by (simp add: roundHalfEven_def Let_def)
  finally show ?thesis by simp
qed

lemma two_minus_one: "jsSub (Fin 2) (Fin 1) = Fin 1"
proof -
  have "roundDouble (2 powi 0) = Fin (2 powi 0)"
    by (rule roundDouble_power_of_two) simp_all
  then show ?thesis by (simp add: jsSub_def)
qed

lemma one_times_double: "roundDouble k = Fin k \<Longrightarrow> jsMul (Fin 1) (Fin k) = Fin k"
  by simp

lemma multiplier_12_plus_one:
  "jsAdd (Fin (1385722962267845 / 2 ^ 53)) (Fin 1) = Fin (2598230554252209 / 2 ^ 51)"
proof -
  let ?x = "1385722962267845 / 2 ^ 53 + 1 :: real"
  have "roundDouble ?x =
      Fin (real_of_int (roundHalfEven (?x / 2 powi (0 - 52))) * 2 powi (0 - 52))"
    by (rule roundDouble_normal) simp_all
  also have "roundHalfEven (?x / 2 powi (0 - 52)) = 5196461108504418"
    by (simp add: roundHalfEven_def Let_def)
  finally show ?thesis by simp
qed

lemma multiplier_26_plus_one:
  "jsAdd (Fin (667199944795629 / 2 ^ 53)) (Fin 1) = Fin (2418599799884155 / 2 ^ 51)"
proof -
  let ?x = "667199944795629 / 2 ^ 53 + 1 :: real"
  have "roundDouble ?x =
      Fin (real_of_int (roundHalfEven (?x / 2 powi (0 - 52))) * 2 powi (0 - 52))"
    by (rule roundDouble_normal) simp_all
  also have "roundHalfEven (?x / 2 powi (0 - 52)) = 4837199599768310"
    by (simp add: roundHalfEven_def Let_def)
  finally show ?thesis by simp
qed

lemma ema12_minus_ema26:
  "jsSub (Fin (2598230554252209 / 2 ^ 51)) (Fin (2418599799884155 / 2 ^ 51))
     = Fin (89815377184027 / 2 ^ 50)"
proof -
  let ?x = "2598230554252209 / 2 ^ 51 + - (2418599799884155 / 2 ^ 51) :: real"
  have "roundDouble ?x =
      Fin (real_of_int (roundHalfEven (?x / 2 powi (- 4 - 52))) * 2 powi (- 4 - 52))"
    by (rule roundDouble_normal) simp_all
  also have "roundHalfEven (?x / 2 powi (- 4 - 52)) = 5748184139777728"
    by (simp add: roundHalfEven_def Let_def)
  finally show ?thesis by (simp add: jsSub_def)
qed

lemma ema12_example: "calculateEMA64 [Fin 1, Fin 2] 12 = Fin (2598230554252209 / 2 ^ 51)"
proof -
  have k: "jsMul (Fin 1) (Fin (1385722962267845 / 2 ^ 53)) = Fin (1385722962267845 / 2 ^ 53)"
    by (rule one_times_double) (rule roundDouble_idem [OF multiplier_12])
  show ?thesis
    by (simp only: calculateEMA64_def list.case Let_def fold_simps o_apply id_apply
          multiplier_12 two_minus_one k multiplier_12_plus_one)
qed

lemma ema26_example: "calculateEMA64 [Fin 1, Fin 2] 26 = Fin (2418599799884155 / 2 ^ 51)"
proof -
  have k: "jsMul (Fin 1) (Fin (667199944795629 / 2 ^ 53)) = Fin (667199944795629 / 2 ^ 53)"
    by (rule one_times_double) (rule roundDouble_idem [OF multiplier_26])
  show ?thesis
    by (simp only: calculateEMA64_def list.case Let_def fold_simps o_apply id_apply
          multiplier_26 two_minus_one k multiplier_26_plus_one)
qed

lemma macd_example:
  "macd64 (calculateMACD64 [Fin 1, Fin 2]) = Fin (89815377184027 / 2 ^ 50)"
  by (simp only: calculateMACD64_def Let_def macdResult64.select_convs
        ema12_example ema26_example ema12_minus_ema26)

lemma ema_overflow:
  assumes "roundDouble (2 / (real p + 1)) = Fin k" and "0 < k"
  shows "calculateEMA64 [Fin (2 ^ 1023), Fin (- (2 ^ 1023))] p = NegInf"
proof -
  have "(2::real) ^ 1024 \<le> 2 ^ 1023 + 2 ^ 1023"
    by simp
  then have "roundDouble (- (2 ^ 1023 + 2 ^ 1023)) = NegInf"
    by (rule roundDouble_overflow)
  then have s: "jsSub (Fin (- (2 ^ 1023))) (Fin (2 ^ 1023)) = NegInf"
    by (simp add: jsSub_def)
  have m: "jsMul NegInf (Fin k) = NegInf"
    using assms(2) by simp
  have a: "jsAdd NegInf (Fin (2 ^ 1023)) = NegInf"
    by simp
  show ?thesis
    by (simp only: calculateEMA64_def list.case Let_def fold_simps o_apply id_apply
          assms(1) s m a)
qed

text \<open>
  Claim C6, as the code computes it. For every list of closes whose macd is a finite
  number, \<^verbatim>\<open>calculateMACD\<close> returns a signal equal to the macd (\<^verbatim>\<open>===\<close>) and a
  histogram of exactly \<open>0\<close>: each step of the EMA over nine copies of the macd adds
  \<open>(macd - macd) * k\<close>. The MACD term of the momentum score,
  \<^verbatim>\<open>Math.max(-20, Math.min(20, histogram * 100))\<close>, is then \<open>0\<close>. When the macd is
  not finite (an EMA overflowed, or a close was \<^verbatim>\<open>NaN\<close>), signal and histogram are
  \<^verbatim>\<open>NaN\<close> and the signal does not equal the macd.
\<close>

theorem macd_signal_double:
  "(macd64 (calculateMACD64 closes) = Fin m \<longrightarrow>
      signal64 (calculateMACD64 closes) = Fin m
      \<and> jsStrictEquals (signal64 (calculateMACD64 closes)) (macd64 (calculateMACD64 closes))
      \<and> histogram64 (calculateMACD64 closes) = Fin 0
      \<and> mathMax (Fin (- 20))
           (mathMin (Fin 20) (jsMul (histogram64 (calculateMACD64 closes)) (Fin 100))) = Fin 0)
   \<and> ((\<forall>x. macd64 (calculateMACD64 closes) \<noteq> Fin x) \<longrightarrow>
      signal64 (calculateMACD64 closes) = NaN
      \<and> \<not> jsStrictEquals (signal64 (calculateMACD64 closes)) (macd64 (calculateMACD64 closes))
      \<and> histogram64 (calculateMACD64 closes) = NaN)"
proof -
  let ?m = "jsSub (calculateEMA64 closes 12) (calculateEMA64 closes 26)"
  have macd: "macd64 (calculateMACD64 closes) = ?m"
    and sig: "signal64 (calculateMACD64 closes) = calculateEMA64 (replicate 9 ?m) 9"
    and hist: "histogram64 (calculateMACD64 closes) = jsSub ?m (calculateEMA64 (replicate 9 ?m) 9)"
    by (simp_all add: calculateMACD64_def Let_def)
  have fin: "signal64 (calculateMACD64 closes) = Fin m
      \<and> jsStrictEquals (signal64 (calculateMACD64 closes)) (macd64 (calculateMACD64 closes))
      \<and> histogram64 (calculateMACD64 closes) = Fin 0
      \<and> mathMax (Fin (- 20))
           (mathMin (Fin 20) (jsMul (histogram64 (calculateMACD64 closes)) (Fin 100))) = Fin 0"
    if "macd64 (calculateMACD64 closes) = Fin m"
  proof -
    have m: "?m = Fin m"
      using that unfolding macd .
    then have d: "roundDouble m = Fin m" by (rule jsSub_Fin_double)
    have s: "signal64 (calculateMACD64 closes) = Fin m"
      unfolding sig m by (rule calculateEMA64_constant_finite [OF d])
    have h: "histogram64 (calculateMACD64 closes) = Fin 0"
      unfolding hist m calculateEMA64_constant_finite [OF d] by (simp add: jsSub_def)
    show ?thesis
      using that s h by (simp add: jsStrictEquals_def mathMax_def mathMin_def)
  qed
  have inf: "signal64 (calculateMACD64 closes) = NaN
      \<and> \<not> jsStrictEquals (signal64 (calculateMACD64 closes)) (macd64 (calculateMACD64 closes))
      \<and> histogram64 (calculateMACD64 closes) = NaN"
    if "\<forall>x. macd64 (calculateMACD64 closes) \<noteq> Fin x"
  proof -
    have n: "\<forall>x. ?m \<noteq> Fin x"
      using that unfolding macd .
    have s: "signal64 (calculateMACD64 closes) = NaN"
      unfolding sig by (rule calculateEMA64_constant_nonfinite [OF n])
    have h: "histogram64 (calculateMACD64 closes) = NaN"
      unfolding hist calculateEMA64_constant_nonfinite [OF n] by (simp add: jsSub_def)
    show ?thesis
      using s h by (simp add: jsStrictEquals_def)
  qed
  show ?thesis
    using fin inf by blast
qed

theorem macd_signal_double_witness:
  "macd64 (calculateMACD64 [Fin 1, Fin 2]) = Fin (89815377184027 / 2 ^ 50)
   \<and> signal64 (calculateMACD64 [Fin 1, Fin 2]) = Fin (89815377184027 / 2 ^ 50)
   \<and> histogram64 (calculateMACD64 [Fin 1, Fin 2]) = Fin 0"
  using macd_signal_double [of "[Fin 1, Fin 2]" "89815377184027 / 2 ^ 50"] macd_example
  by blast

text \<open>
  On the two finite closes \<open>2^1023\<close> and \<open>-2^1023\<close> the difference in the first EMA
  step overflows: both EMAs are \<^verbatim>\<open>-Infinity\<close>, and macd, signal and histogram are
  \<^verbatim>\<open>NaN\<close>.
\<close>

theorem macd_signal_counterexample:
  "roundDouble (2 ^ 1023) = Fin (2 ^ 1023)
   \<and> roundDouble (- (2 ^ 1023)) = Fin (- (2 ^ 1023))
   \<and> macd64 (calculateMACD64 [Fin (2 ^ 1023), Fin (- (2 ^ 1023))]) = NaN
   \<and> signal64 (calculateMACD64 [Fin (2 ^ 1023), Fin (- (2 ^ 1023))]) = NaN
   \<and> \<not> jsStrictEquals (signal64 (calculateMACD64 [Fin (2 ^ 1023), Fin (- (2 ^ 1023))]))
            (macd64 (calculateMACD64 [Fin (2 ^ 1023), Fin (- (2 ^ 1023))]))
   \<and> histogram64 (calculateMACD64 [Fin (2 ^ 1023), Fin (- (2 ^ 1023))]) \<noteq> Fin 0"
proof -
  let ?cs = "[Fin (2 ^ 1023), Fin (- (2 ^ 1023))]"
  have p: "roundDouble (2 powi 1023) = Fin (2 powi 1023)"
    by (rule roundDouble_power_of_two) simp_all
  then have d1: "roundDouble (2 ^ 1023) = Fin (2 ^ 1023)"
    by simp
  have d2: "roundDouble (- (2 ^ 1023)) = Fin (- (2 ^ 1023))"
    using d1 by (simp add: roundDouble_def Let_def split: if_splits)
  have e12: "calculateEMA64 ?cs 12 = NegInf"
    by (rule ema_overflow [OF multiplier_12]) simp
  have e26: "calculateEMA64 ?cs 26 = NegInf"
    by (rule ema_overflow [OF multiplier_26]) simp
  have nn: "jsSub NegInf NegInf = NaN"
    by (simp add: jsSub_def)
  have n: "\<forall>x. (NaN::jsnum) \<noteq> Fin x"
    by simp
  have s9: "calculateEMA64 (replicate 9 NaN) 9 = NaN"
    by (rule calculateEMA64_constant_nonfinite [OF n])
  have nh: "jsSub NaN NaN = NaN"
    by (simp add: jsSub_def)
  have macd: "macd64 (calculateMACD64 ?cs) = NaN"
    by (simp only: calculateMACD64_def Let_def macdResult64.select_convs e12 e26 nn)
  have sig: "signal64 (calculateMACD64 ?cs) = NaN"
    by (simp only: calculateMACD64_def Let_def macdResult64.select_convs e12 e26 nn s9)
  have hist: "histogram64 (calculateMACD64 ?cs) = NaN"
    by (simp only: calculateMACD64_def Let_def macdResult64.select_convs e12 e26 nn s9 nh)
  show ?thesis
    using d1 d2 macd sig hist by (simp add: jsStrictEquals_def)
qed

end
